theory Spec2Isabelle
  imports Complex_Main "HOL-Library.Char_ord" "HOL-Library.List_Lexorder"
begin

section \<open>Library routines used by the plugin\<close>

text \<open>
  The plugin (\<^verbatim>\<open>src/xplane-plugin/FSFFB-XPP.cpp\<close>) is C++ on top of the standard library and
  the X-Plane SDK. This section models the library routines it calls; the sections after it
  follow the plugin's own functions one by one and keep their names.

  A finite C++ \<^verbatim>\<open>float\<close> is carried as the rational number it denotes (\<open>float\<close>). The
  values that the simulator returns are taken to be finite, and the product of such a value
  with a finite conversion factor is not rounded; no statement below depends on the digits
  that this rounding would change. \<^verbatim>\<open>std::stof\<close> does round to binary32, as modelled below.

  A float that comes out of \<^verbatim>\<open>std::stof\<close> may also be a negative zero, an infinity or a
  NaN, which text such as \<^verbatim>\<open>-0\<close>, \<^verbatim>\<open>inf\<close> and \<^verbatim>\<open>nan\<close> denotes. \<open>any_float\<close> has these
  values too: the negative zero, an infinity with its sign (\<open>True\<close> is negative), a NaN
  with its sign and payload; \<open>Finite 0\<close> is the positive zero. The axis values, the values
  written to the simulator and the conversion factor of a subscription are of this type.
\<close>

type_synonym float = rat

datatype any_float = Finite float | MinusZero | Infinity bool | NaN bool nat

text \<open>The exceptions of \<^verbatim>\<open>std::stoi\<close> and \<^verbatim>\<open>std::stof\<close>. Nothing in the plugin catches them.\<close>

datatype exn = invalid_argument | out_of_range

subsection \<open>Ordered maps\<close>

text \<open>
  A \<^verbatim>\<open>std::map\<close> with string keys is an association list kept in the order of its keys
  (\<^verbatim>\<open>std::less\<close> on \<^verbatim>\<open>std::string\<close> is the lexicographic order on bytes), which is the
  order in which the plugin's range-for loops see the entries. \<open>map_set\<close> is the assignment
  \<^verbatim>\<open>m[k] = v\<close>; \<open>map_at\<close> is the read \<^verbatim>\<open>m[k]\<close>, which inserts a value-initialised entry
  when the key is absent; \<open>map_has\<close> is \<^verbatim>\<open>m.find(k) != m.end()\<close>.
\<close>

fun map_set :: "'k::linorder \<Rightarrow> 'v \<Rightarrow> ('k \<times> 'v) list \<Rightarrow> ('k \<times> 'v) list" where
  "map_set k v [] = [(k, v)]"
| "map_set k v ((k', v') # m) =
     (if k = k' then (k, v) # m
      else if k < k' then (k, v) # (k', v') # m
      else (k', v') # map_set k v m)"

definition map_at :: "'v \<Rightarrow> ('k::linorder \<times> 'v) list \<Rightarrow> 'k \<Rightarrow> 'v \<times> ('k \<times> 'v) list" where
  "map_at dflt m k = (case map_of m k of Some v \<Rightarrow> (v, m) | None \<Rightarrow> (dflt, map_set k dflt m))"

definition map_has :: "('k \<times> 'v) list \<Rightarrow> 'k \<Rightarrow> bool" where
  "map_has m k = (map_of m k \<noteq> None)"

subsection \<open>String streams\<close>

text \<open>
  A \<^verbatim>\<open>std::istringstream\<close> is the characters not yet read and whether the stream is still
  good (neither \<^verbatim>\<open>eofbit\<close> nor \<^verbatim>\<open>failbit\<close> set). \<open>getline iss str delim\<close> returns whether the
  call succeeded (what \<^verbatim>\<open>while (std::getline(...))\<close> tests), the string argument afterwards
  and the stream afterwards:
  \<^item> on a stream that is not good the sentry fails and the string is left as it was;
  \<^item> otherwise the string is erased and filled up to the delimiter, which is consumed and
    not stored; when the input ends first, the stream stops being good, and the call fails
    only if no character was extracted at all.
\<close>

record istringstream =
  rdbuf :: string
  good :: bool

definition istringstream :: "string \<Rightarrow> istringstream" where
  "istringstream s = \<lparr>rdbuf = s, good = True\<rparr>"

definition getline :: "istringstream \<Rightarrow> string \<Rightarrow> char \<Rightarrow> bool \<times> string \<times> istringstream" where
  "getline iss str delim =
     (if \<not> good iss then (False, str, iss)
      else if delim \<in> set (rdbuf iss)
      then (True, takeWhile (\<lambda>c. c \<noteq> delim) (rdbuf iss),
            iss\<lparr>rdbuf := tl (dropWhile (\<lambda>c. c \<noteq> delim) (rdbuf iss))\<rparr>)
      else (rdbuf iss \<noteq> [], rdbuf iss, \<lparr>rdbuf = [], good = False\<rparr>))"

text \<open>\<^verbatim>\<open>isspace\<close> and \<^verbatim>\<open>isdigit\<close> in the "C" locale.\<close>

definition isspace :: "char \<Rightarrow> bool" where
  "isspace c = (c \<in> {CHR '' '', CHR 0x09, CHR 0x0A, CHR 0x0B, CHR 0x0C, CHR 0x0D})"

definition isdigit :: "char \<Rightarrow> bool" where
  "isdigit c = (c \<in> set ''0123456789'')"

text \<open>
  \<^verbatim>\<open>iss >> std::boolalpha >> b\<close> for a \<^verbatim>\<open>bool b\<close> that was declared without an initialiser.
  \<open>junk\<close> is the indeterminate content of \<open>b\<close> before the call. The sentry fails on a
  stream that is not good, and after skipping white space at the end of the input; then
  \<open>b\<close> is not assigned at all. Otherwise the input is matched against \<^verbatim>\<open>true\<close> and
  \<^verbatim>\<open>false\<close>. When neither matches, the standard stores \<^verbatim>\<open>false\<close>, and a library that
  leaves \<open>b\<close> unassigned instead is covered as well by letting the result be \<open>junk\<close>.
\<close>

definition extract_boolalpha :: "bool \<Rightarrow> istringstream \<Rightarrow> bool" where
  "extract_boolalpha junk iss =
     (if \<not> good iss then junk
      else let s = dropWhile isspace (rdbuf iss)
           in if s = [] then junk
              else if take 4 s = ''true'' then True
              else if take 5 s = ''false'' then False
              else junk)"

subsection \<open>Numbers from strings\<close>

definition digit_val :: "char \<Rightarrow> int" where
  "digit_val c = of_char c - of_char CHR ''0''"

definition digits_val :: "string \<Rightarrow> int" where
  "digits_val ds = foldl (\<lambda>n c. 10 * n + digit_val c) 0 ds"

text \<open>An optional sign in front of a number: whether it is \<^verbatim>\<open>-\<close>, and the rest.\<close>

fun read_sign :: "string \<Rightarrow> bool \<times> string" where
  "read_sign (c # s) =
     (if c = CHR ''-'' then (True, s) else if c = CHR ''+'' then (False, s) else (False, c # s))"
| "read_sign [] = (False, [])"

text \<open>
  \<^verbatim>\<open>std::stoi(s)\<close>: \<^verbatim>\<open>strtol\<close> in base 10 on the longest prefix that is white space, an
  optional sign and digits. No digit raises \<^verbatim>\<open>std::invalid_argument\<close>, a value that does not
  fit a 32-bit \<^verbatim>\<open>int\<close> raises \<^verbatim>\<open>std::out_of_range\<close>.
\<close>

definition stoi :: "string \<Rightarrow> exn + int" where
  "stoi s =
     (let (neg, r) = read_sign (dropWhile isspace s);
          ds = takeWhile isdigit r;
          v = (if neg then - digits_val ds else digits_val ds)
      in if ds = [] then Inl invalid_argument
         else if v < - (2 ^ 31) \<or> 2 ^ 31 - 1 < v then Inl out_of_range
         else Inr v)"

subsection \<open>Strings from numbers\<close>

definition digit_char :: "int \<Rightarrow> char" where
  "digit_char d = ''0123456789'' ! nat d"

function int_digits :: "int \<Rightarrow> string" where
  "int_digits n =
     (if n < 10 then [digit_char n] else int_digits (n div 10) @ [digit_char (n mod 10)])"
  by pat_completeness auto
termination
  by (relation "measure nat") auto

declare int_digits.simps [simp del]

text \<open>\<^verbatim>\<open>std::to_string\<close> on an \<^verbatim>\<open>int\<close> (a \<^verbatim>\<open>bool\<close> argument is promoted to 0 or 1).\<close>

definition to_string :: "int \<Rightarrow> string" where
  "to_string i = (if i < 0 then CHR ''-'' # int_digits (- i) else int_digits i)"

definition of_bool_int :: "bool \<Rightarrow> int" where
  "of_bool_int b = (if b then 1 else 0)"

text \<open>
  Output of a float with \<^verbatim>\<open>std::fixed\<close> and \<^verbatim>\<open>std::setprecision(p)\<close>, which is \<^verbatim>\<open>printf\<close>'s
  \<^verbatim>\<open>%.*f\<close>: the value rounded to \<open>p\<close> decimals (to nearest, ties to even), a minus sign for
  a negative value, the integer digits and, if \<open>p > 0\<close>, the point and \<open>p\<close> digits. A negative
  precision counts as the default 6.
\<close>

definition round_half_even :: "rat \<Rightarrow> int" where
  "round_half_even x =
     (let f = \<lfloor>x\<rfloor>; r = x - of_int f
      in if r < 1 / 2 then f else if 1 / 2 < r then f + 1 else if even f then f else f + 1)"

definition put_fixed :: "int \<Rightarrow> float \<Rightarrow> string" where
  "put_fixed precision v =
     (let p = (if precision < 0 then 6 else nat precision);
          n = round_half_even (\<bar>v\<bar> * 10 ^ p);
          frac = int_digits (n mod 10 ^ p)
      in (if v < 0 then ''-'' else '''') @ int_digits (n div 10 ^ p) @
         (if p = 0 then '''' else CHR ''.'' # replicate (p - length frac) CHR ''0'' @ frac))"

text \<open>
  \<^verbatim>\<open>s.find(c)\<close> and \<^verbatim>\<open>s.find_last_not_of(cs)\<close>; \<open>None\<close> is \<^verbatim>\<open>std::string::npos\<close>.
\<close>

fun find_char :: "string \<Rightarrow> char \<Rightarrow> nat option" where
  "find_char [] c = None"
| "find_char (x # s) c = (if x = c then Some 0 else map_option Suc (find_char s c))"

fun find_last_not_of :: "string \<Rightarrow> string \<Rightarrow> nat option" where
  "find_last_not_of [] cs = None"
| "find_last_not_of (x # s) cs =
     (case find_last_not_of s cs of
        Some i \<Rightarrow> Some (Suc i)
      | None \<Rightarrow> if x \<in> set cs then None else Some 0)"

section \<open>The simulator and the plugin's state\<close>

text \<open>
  The X-Plane SDK is the plugin's environment. A handle (\<^verbatim>\<open>XPLMDataRef\<close>) is identified with
  the path of the dataref it stands for. A \<open>simulator\<close> is what the outside answers during
  one call of the plugin: which paths \<^verbatim>\<open>XPLMFindDataRef\<close> resolves and what the read
  accessors return. The accessors are total, so a handle the simulator does not know reads
  as whatever the simulator chooses for it (the SDK reads 0 through a null handle).
  \<^verbatim>\<open>XPLMGetDatab\<close> is read as a C string, up to its first NUL.

  The last two fields are answers of the C++ runtime that the plugin is linked with, where
  the standard leaves them to the implementation or where they depend on floats that are
  not rationals: \<open>strtof_other\<close> is what \<^verbatim>\<open>std::stof\<close> does on text that is not a plain
  decimal number in the normal range (see \<open>stof\<close> below), and \<open>special_text v c p\<close> is the
  text that \<^verbatim>\<open>FloatToString\<close> prints with precision \<open>p\<close> for the product of the value \<open>v\<close>
  with a factor \<open>c\<close> that is a negative zero, an infinity or a NaN.
\<close>

type_synonym XPLMDataRef = string

record simulator =
  resolves :: "string \<Rightarrow> bool"
  XPLMGetDatai :: "XPLMDataRef \<Rightarrow> int"
  XPLMGetDataf :: "XPLMDataRef \<Rightarrow> float"
  XPLMGetDatad :: "XPLMDataRef \<Rightarrow> float"
  XPLMGetDatavf :: "XPLMDataRef \<Rightarrow> float list"
  XPLMGetDatab :: "XPLMDataRef \<Rightarrow> string"
  XPLMGetNthAircraftModel :: string
  XPLMGetElapsedTime :: float
  strtof_other :: "string \<Rightarrow> exn + any_float"
  special_text :: "float \<Rightarrow> any_float \<Rightarrow> int \<Rightarrow> string"

definition XPLMFindDataRef :: "simulator \<Rightarrow> string \<Rightarrow> XPLMDataRef option" where
  "XPLMFindDataRef sim path = (if resolves sim path then Some path else None)"

text \<open>The writes to the simulator, \<^verbatim>\<open>XPLMSetDatai\<close> and \<^verbatim>\<open>XPLMSetDataf\<close>, are recorded in order.\<close>

datatype sim_write = XPLMSetDatai XPLMDataRef int | XPLMSetDataf XPLMDataRef any_float

subsection \<open>\<^verbatim>\<open>std::stof\<close>\<close>

text \<open>
  The nearest binary32 value to the positive rational \<open>a / b\<close> (ties to even), for a
  quotient in the normal range: \<open>binary_exponent\<close> is the exponent \<open>e\<close> with
  \<open>2 ^ e \<le> a / b < 2 ^ (e + 1)\<close>, and the result is a multiple of \<open>2 ^ (e - 23)\<close>.
\<close>

function ilog2 :: "int \<Rightarrow> int" where
  "ilog2 n = (if n < 2 then 0 else 1 + ilog2 (n div 2))"
  by pat_completeness auto
termination
  by (relation "measure nat") auto

declare ilog2.simps [simp del]

definition pow2 :: "int \<Rightarrow> rat" where
  "pow2 e = (if 0 \<le> e then 2 ^ nat e else 1 / 2 ^ nat (- e))"

definition binary_exponent :: "int \<Rightarrow> int \<Rightarrow> int" where
  "binary_exponent a b =
     (let e = ilog2 a - ilog2 b in if pow2 e \<le> of_int a / of_int b then e else e - 1)"

definition round_binary32 :: "int \<Rightarrow> int \<Rightarrow> rat" where
  "round_binary32 a b =
     (let x = binary_exponent a b - 23
      in of_int (round_half_even (of_int a / of_int b / pow2 x)) * pow2 x)"

text \<open>
  \<^verbatim>\<open>std::stof(s)\<close> is \<^verbatim>\<open>strtof\<close> on the longest prefix of \<open>s\<close> that is a number, after white
  space: it raises \<^verbatim>\<open>std::invalid_argument\<close> when there is no conversion and
  \<^verbatim>\<open>std::out_of_range\<close> when \<^verbatim>\<open>strtof\<close> reports a range error. The model decides what every
  runtime agrees on, in the "C" locale and with rounding to nearest:
  \<^item> text that starts, after white space and an optional sign, with neither a digit, nor a
    point and a digit, nor one of the letters of \<^verbatim>\<open>inf\<close> and \<^verbatim>\<open>nan\<close> has no conversion;
  \<^item> plain decimal text (digits with an optional point, not followed by an exponent and
    not the start of a hexadecimal number) is a zero with the sign of the text, or has the
    nearest binary32 value (ties to even) if its magnitude is in the normal range, or is a
    range error if it rounds beyond the largest binary32 value; what follows the number
    is ignored.
  Everything else is the runtime's answer \<open>strtof_other\<close>, on the whole text: the forms
  \<^verbatim>\<open>inf\<close>, \<^verbatim>\<open>infinity\<close> and \<^verbatim>\<open>nan\<close>, hexadecimal numbers, numbers with an exponent, and
  magnitudes below the normal range, where the standard leaves it to the implementation
  whether an underflow is a range error.
\<close>

definition stof :: "simulator \<Rightarrow> string \<Rightarrow> exn + any_float" where
  "stof sim s =
     (let (neg, r) = read_sign (dropWhile isspace s);
          ip = takeWhile isdigit r;
          r1 = dropWhile isdigit r;
          fp = (if r1 \<noteq> [] \<and> hd r1 = CHR ''.'' then takeWhile isdigit (tl r1) else []);
          r2 = (if r1 \<noteq> [] \<and> hd r1 = CHR ''.'' then dropWhile isdigit (tl r1) else r1);
          a = digits_val (ip @ fp);
          b = 10 ^ length fp
      in if ip @ fp = []
         then (if r \<noteq> [] \<and> hd r \<in> set ''iInN'' then strtof_other sim s
               else Inl invalid_argument)
         else if r2 \<noteq> [] \<and> hd r2 \<in> set ''eE'' then strtof_other sim s
         else if take 1 r = ''0'' \<and> take 1 (drop 1 r) \<in> set [''x'', ''X''] then strtof_other sim s
         else if a = 0 then Inr (if neg then MinusZero else Finite 0)
         else if of_int a / of_int b < pow2 (- 126) then strtof_other sim s
         else if 2 ^ 128 \<le> round_binary32 a b then Inl out_of_range
         else Inr (Finite (if neg then - round_binary32 a b else round_binary32 a b)))"

subsection \<open>The handles looked up at load time\<close>

definition gPaused :: XPLMDataRef where
  "gPaused = ''sim/time/paused''"

definition gOnGround :: XPLMDataRef where
  "gOnGround = ''sim/flightmodel/failures/onground_all''"

definition gRetractable :: XPLMDataRef where
  "gRetractable = ''sim/aircraft/gear/acf_gear_retract''"

definition gFlaps :: XPLMDataRef where
  "gFlaps = ''sim/cockpit2/controls/flap_system_deploy_ratio''"

definition gGear :: XPLMDataRef where
  "gGear = ''sim/flightmodel2/gear/deploy_ratio''"

definition gGs_axil :: XPLMDataRef where
  "gGs_axil = ''sim/flightmodel/forces/g_axil''"

definition gGs_nrml :: XPLMDataRef where
  "gGs_nrml = ''sim/flightmodel/forces/g_nrml''"

definition gGs_side :: XPLMDataRef where
  "gGs_side = ''sim/flightmodel/forces/g_side''"

definition gAccLocal_x :: XPLMDataRef where
  "gAccLocal_x = ''sim/flightmodel/position/local_ax''"

definition gAccLocal_y :: XPLMDataRef where
  "gAccLocal_y = ''sim/flightmodel/position/local_ay''"

definition gAccLocal_z :: XPLMDataRef where
  "gAccLocal_z = ''sim/flightmodel/position/local_az''"

definition gVelAcf_x :: XPLMDataRef where
  "gVelAcf_x = ''sim/flightmodel/forces/vx_acf_axis''"

definition gVelAcf_y :: XPLMDataRef where
  "gVelAcf_y = ''sim/flightmodel/forces/vy_acf_axis''"

definition gVelAcf_z :: XPLMDataRef where
  "gVelAcf_z = ''sim/flightmodel/forces/vz_acf_axis''"

definition gTAS :: XPLMDataRef where
  "gTAS = ''sim/flightmodel/position/true_airspeed''"

definition gIAS :: XPLMDataRef where
  "gIAS = ''sim/flightmodel/position/indicated_airspeed''"

definition gAirDensity :: XPLMDataRef where
  "gAirDensity = ''sim/weather/rho''"

definition gDynPress :: XPLMDataRef where
  "gDynPress = ''sim/flightmodel/misc/Qstatic''"

definition gPropThrust :: XPLMDataRef where
  "gPropThrust = ''sim/flightmodel/engine/POINT_thrust''"

definition gAoA :: XPLMDataRef where
  "gAoA = ''sim/flightmodel/position/alpha''"

definition gWarnAlpha :: XPLMDataRef where
  "gWarnAlpha = ''sim/aircraft/overflow/acf_stall_warn_alpha''"

definition gSlip :: XPLMDataRef where
  "gSlip = ''sim/flightmodel/position/beta''"

definition gWoW :: XPLMDataRef where
  "gWoW = ''sim/flightmodel2/gear/tire_vertical_deflection_mtr''"

definition gNumEngines :: XPLMDataRef where
  "gNumEngines = ''sim/aircraft/engine/acf_num_engines''"

definition gEngRPM :: XPLMDataRef where
  "gEngRPM = ''sim/flightmodel/engine/ENGN_tacrad''"

definition gEngPCT :: XPLMDataRef where
  "gEngPCT = ''sim/flightmodel/engine/ENGN_N1_''"

definition gAfterburner :: XPLMDataRef where
  "gAfterburner = ''sim/flightmodel2/engines/afterburner_ratio''"

definition gPropRPM :: XPLMDataRef where
  "gPropRPM = ''sim/flightmodel/engine/POINT_tacrad''"

definition gRudDefl_l :: XPLMDataRef where
  "gRudDefl_l = ''sim/flightmodel/controls/ldruddef''"

definition gRudDefl_r :: XPLMDataRef where
  "gRudDefl_r = ''sim/flightmodel/controls/rdruddef''"

definition gVne :: XPLMDataRef where
  "gVne = ''sim/aircraft/view/acf_Vne''"

definition gVso :: XPLMDataRef where
  "gVso = ''sim/aircraft/view/acf_Vso''"

definition gVfe :: XPLMDataRef where
  "gVfe = ''sim/aircraft/view/acf_Vfe''"

definition gVle :: XPLMDataRef where
  "gVle = ''sim/aircraft/overflow/acf_Vle''"

definition gCollectiveOvd :: XPLMDataRef where
  "gCollectiveOvd = ''sim/operation/override/override_prop_pitch''"

definition gRollOvd :: XPLMDataRef where
  "gRollOvd = ''sim/operation/override/override_joystick_roll''"

definition gPitchOvd :: XPLMDataRef where
  "gPitchOvd = ''sim/operation/override/override_joystick_pitch''"

definition gYawOvd :: XPLMDataRef where
  "gYawOvd = ''sim/operation/override/override_joystick_heading''"

definition gCollectiveRatio :: XPLMDataRef where
  "gCollectiveRatio = ''sim/cockpit2/engine/actuators/prop_ratio_all''"

definition gRollRatio :: XPLMDataRef where
  "gRollRatio = ''sim/joystick/yoke_roll_ratio''"

definition gPitchRatio :: XPLMDataRef where
  "gPitchRatio = ''sim/joystick/yoke_pitch_ratio''"

definition gYawRatio :: XPLMDataRef where
  "gYawRatio = ''sim/joystick/yoke_heading_ratio''"

definition gElevTrim :: XPLMDataRef where
  "gElevTrim = ''sim/flightmodel2/controls/elevator_trim''"

definition gAilerTrim :: XPLMDataRef where
  "gAilerTrim = ''sim/flightmodel2/controls/aileron_trim''"

definition gRudderTrim :: XPLMDataRef where
  "gRudderTrim = ''sim/flightmodel2/controls/rudder_trim''"

definition gAPMode :: XPLMDataRef where
  "gAPMode = ''sim/cockpit/autopilot/autopilot_mode''"

definition gAPServos :: XPLMDataRef where
  "gAPServos = ''sim/cockpit2/autopilot/servos_on''"

definition gYawServo :: XPLMDataRef where
  "gYawServo = ''sim/joystick/servo_heading_ratio''"

definition gPitchServo :: XPLMDataRef where
  "gPitchServo = ''sim/joystick/servo_pitch_ratio''"

definition gRollServo :: XPLMDataRef where
  "gRollServo = ''sim/joystick/servo_roll_ratio''"

definition gCanopyPos :: XPLMDataRef where
  "gCanopyPos = ''sim/flightmodel/controls/canopy_ratio''"

definition gSpeedbrakePos :: XPLMDataRef where
  "gSpeedbrakePos = ''sim/flightmodel2/controls/speedbrake_ratio''"

definition gGearXNode :: XPLMDataRef where
  "gGearXNode = ''sim/aircraft/parts/acf_gear_xnodef''"

definition gGearYNode :: XPLMDataRef where
  "gGearYNode = ''sim/aircraft/parts/acf_gear_ynodef''"

definition gGearZNode :: XPLMDataRef where
  "gGearZNode = ''sim/aircraft/parts/acf_gear_znodef''"

definition gStickForcePitch :: XPLMDataRef where
  "gStickForcePitch = ''sim/flightmodel/misc/act_frc_ptch_lb''"

definition gStickForceRoll :: XPLMDataRef where
  "gStickForceRoll = ''sim/flightmodel/misc/act_frc_roll_lb''"

definition gStickForceYaw :: XPLMDataRef where
  "gStickForceYaw = ''sim/flightmodel/misc/act_frc_hdgn_lb''"

lemmas dataref_defs =
  gPaused_def gOnGround_def gRetractable_def gFlaps_def gGear_def gGs_axil_def gGs_nrml_def
  gGs_side_def gAccLocal_x_def gAccLocal_y_def gAccLocal_z_def gVelAcf_x_def gVelAcf_y_def
  gVelAcf_z_def gTAS_def gIAS_def gAirDensity_def gDynPress_def gPropThrust_def gAoA_def
  gWarnAlpha_def gSlip_def gWoW_def gNumEngines_def gEngRPM_def gEngPCT_def gAfterburner_def
  gPropRPM_def gRudDefl_l_def gRudDefl_r_def gVne_def gVso_def gVfe_def gVle_def
  gCollectiveOvd_def gRollOvd_def gPitchOvd_def gYawOvd_def gCollectiveRatio_def
  gRollRatio_def gPitchRatio_def gYawRatio_def gElevTrim_def gAilerTrim_def gRudderTrim_def
  gAPMode_def gAPServos_def gYawServo_def gPitchServo_def gRollServo_def gCanopyPos_def
  gSpeedbrakePos_def gGearXNode_def gGearYNode_def gGearZNode_def gStickForcePitch_def
  gStickForceRoll_def gStickForceYaw_def

subsection \<open>Global state\<close>

text \<open>
  \<open>DataRefSubscription\<close> is the struct of the source. \<open>state\<close> holds the plugin's mutable
  globals under their names, and two logs of what the plugin did to the outside:
  \<open>written\<close>, the writes to the simulator, and \<open>sent\<close>, the datagrams handed to
  \<^verbatim>\<open>sendto\<close>, both oldest first. The debug log file is not part of the state: \<^verbatim>\<open>DebugLog\<close>
  appends a time-stamped line to it and touches nothing else.

  The frame callback and the receive thread run concurrently in the plugin. Here each call
  of \<open>MyFlightLoopCallback\<close> and of \<open>ReceiveData\<close> is one step on the state, which is the
  granularity that \<^verbatim>\<open>axisDataMutex\<close> gives to \<open>ProcessReceivedData\<close> and
  \<open>SendAxisPosition\<close>. \<open>CollectTelemetryData\<close> reads the subscriptions and the override
  flags outside that mutex; a datagram processed in the middle of it is not modelled.
\<close>

record DataRefSubscription =
  dataRef :: XPLMDataRef
  key :: string
  type :: string
  precision :: int
  conversionFactor :: any_float

record state =
  subscribedDataRefs :: "DataRefSubscription list"
  gAircraftDescr :: XPLMDataRef
  gAircraftName :: string
  gPrevAircraftName :: string
  gActiveNumGear :: int
  gActiveNumEngines :: int
  simPaused :: bool
  telemetryData :: "(string \<times> string) list"
  axisDataMap :: "(string \<times> any_float) list"
  overrideJoystick :: bool
  overridePedals :: bool
  overrideCollective :: bool
  written :: "sim_write list"
  sent :: "string list"

definition kt_2_mps :: float where
  "kt_2_mps = 51444 / 100000"

definition radps_2_rpm :: float where
  "radps_2_rpm = 95493 / 10000"

definition fps_2_g :: float where
  "fps_2_g = 31081 / 1000000"

definition no_convert :: float where
  "no_convert = 1"

text \<open>
  \<^verbatim>\<open>IsXPlane12OrNewer\<close> and the state after the static initialisers and \<^verbatim>\<open>XPluginStart\<close>
  (whose socket set-up is taken to succeed).
\<close>

definition IsXPlane12OrNewer :: "simulator \<Rightarrow> bool" where
  "IsXPlane12OrNewer sim =
     (take 2 (to_string (XPLMGetDatai sim ''sim/version/xplane_internal_version'')) = ''12'')"

definition XPluginStart :: "simulator \<Rightarrow> state" where
  "XPluginStart sim =
     \<lparr>subscribedDataRefs = [],
      gAircraftDescr = (if IsXPlane12OrNewer sim then ''sim/aircraft/view/acf_ui_name''
                        else ''sim/aircraft/view/acf_descrip''),
      gAircraftName = '''',
      gPrevAircraftName = '''',
      gActiveNumGear = 3,
      gActiveNumEngines = 0,
      simPaused = False,
      telemetryData = [],
      axisDataMap = [(''cy'', Finite 0), (''jx'', Finite 0), (''jy'', Finite 0), (''px'', Finite 0)],
      overrideJoystick = False,
      overridePedals = False,
      overrideCollective = False,
      written = [],
      sent = []\<rparr>"

section \<open>The plugin's functions\<close>

subsection \<open>Registration and formatting\<close>

definition RegisterDataRef ::
  "simulator \<Rightarrow> string \<Rightarrow> string \<Rightarrow> string \<Rightarrow> int \<Rightarrow> any_float \<Rightarrow> state \<Rightarrow> state" where
  "RegisterDataRef sim datarefPath k t p c st =
     (case XPLMFindDataRef sim datarefPath of
        Some r \<Rightarrow>
          st\<lparr>subscribedDataRefs := subscribedDataRefs st @
                [\<lparr>dataRef = r, key = k, type = t, precision = p, conversionFactor = c\<rparr>]\<rparr>
      | None \<Rightarrow> st)"

definition FloatToString :: "float \<Rightarrow> int \<Rightarrow> float \<Rightarrow> string" where
  "FloatToString v p c = put_fixed p (v * c)"

text \<open>The values of the loop in \<^verbatim>\<open>FloatArrayToString\<close>, with \<^verbatim>\<open>~\<close> between them.\<close>

fun tilde_join :: "string list \<Rightarrow> string" where
  "tilde_join [] = []"
| "tilde_join [x] = x"
| "tilde_join (x # y # xs) = x @ ''~'' @ tilde_join (y # xs)"

definition FloatArrayToString :: "simulator \<Rightarrow> XPLMDataRef \<Rightarrow> float \<Rightarrow> int \<Rightarrow> int \<Rightarrow> string" where
  "FloatArrayToString sim r c fixed_size p =
     (let size0 = int (length (XPLMGetDatavf sim r));
          size1 = (if 0 < fixed_size \<and> fixed_size \<le> size0 then fixed_size else size0);
          dataArray = take (nat size1) (XPLMGetDatavf sim r);
          formattedString = tilde_join (map (\<lambda>x. put_fixed p (x * c)) dataArray)
      in if 0 < fixed_size then formattedString
         else (case find_last_not_of formattedString ''~0.000'' of
                 Some pos \<Rightarrow> take (pos + 1) formattedString
               | None \<Rightarrow> formattedString))"

subsection \<open>Aircraft details\<close>

text \<open>
  \<^verbatim>\<open>GetNumGear\<close> reads at most 10 values of each coordinate table into zero-filled vectors.
  \<open>count_if\<close> is \<^verbatim>\<open>std::count_if\<close>; the source calls it on the one-element range
  \<^verbatim>\<open>[begin + i, begin + i + 1)\<close>.
\<close>

definition count_if :: "('a \<Rightarrow> bool) \<Rightarrow> 'a list \<Rightarrow> int" where
  "count_if P xs = int (length (filter P xs))"

definition read_vector :: "simulator \<Rightarrow> XPLMDataRef \<Rightarrow> nat \<Rightarrow> float list" where
  "read_vector sim r n = take n (XPLMGetDatavf sim r @ replicate n 0)"

definition nonZeroCount :: "float list \<Rightarrow> float list \<Rightarrow> float list \<Rightarrow> nat \<Rightarrow> int" where
  "nonZeroCount arrayX arrayY arrayZ i =
     count_if (\<lambda>v. v \<noteq> 0) (take 1 (drop i arrayX)) +
     count_if (\<lambda>v. v \<noteq> 0) (take 1 (drop i arrayY)) +
     count_if (\<lambda>v. v \<noteq> 0) (take 1 (drop i arrayZ))"

definition GetNumGear :: "simulator \<Rightarrow> int" where
  "GetNumGear sim =
     (let arrayX = read_vector sim gGearXNode 10;
          arrayY = read_vector sim gGearYNode 10;
          arrayZ = read_vector sim gGearZNode 10
      in foldl (\<lambda>maxNonZero i. max maxNonZero (nonZeroCount arrayX arrayY arrayZ i)) 0 [0..<10])"

text \<open>
  A run of assignments \<^verbatim>\<open>telemetryData[k] = v\<close>, in the order of the list, and
  \<^verbatim>\<open>GetACDetails\<close>, whose argument (the aircraft name) only goes to the debug log.
\<close>

definition assign :: "(string \<times> string) list \<Rightarrow> (string \<times> string) list \<Rightarrow> (string \<times> string) list" where
  "assign kvs m = foldl (\<lambda>m' kv. map_set (fst kv) (snd kv) m') m kvs"

definition GetACDetails :: "simulator \<Rightarrow> state \<Rightarrow> state" where
  "GetACDetails sim st =
     (let numEngines = XPLMGetDatai sim gNumEngines;
          numGear = GetNumGear sim
      in st\<lparr>gActiveNumEngines := numEngines,
            gActiveNumGear := numGear,
            telemetryData := assign
              [(''RetractableGear'', to_string (XPLMGetDatai sim gRetractable)),
               (''NumberEngines'', to_string numEngines),
               (''NumberGear'', to_string numGear),
               (''WarnAlpha'', FloatToString (XPLMGetDataf sim gWarnAlpha) 3 1),
               (''Vne'', FloatToString (XPLMGetDataf sim gVne * kt_2_mps) 3 1),
               (''Vso'', FloatToString (XPLMGetDataf sim gVso * kt_2_mps) 3 1),
               (''Vfe'', FloatToString (XPLMGetDataf sim gVfe * kt_2_mps) 3 1),
               (''Vle'', FloatToString (XPLMGetDataf sim gVle * kt_2_mps) 3 1),
               (''GearXNode'', FloatArrayToString sim gGearXNode no_convert numGear 3),
               (''GearYNode'', FloatArrayToString sim gGearYNode no_convert numGear 3),
               (''GearZNode'', FloatArrayToString sim gGearZNode no_convert numGear 3)]
              (telemetryData st)\<rparr>)"

subsection \<open>The snapshot\<close>

text \<open>
  The text for a value read through a subscription: the value times the conversion factor,
  printed by \<^verbatim>\<open>FloatToString\<close> with the subscription's precision. With a factor that is
  a negative zero, an infinity or a NaN the product is a zero, an infinity or a NaN, and
  its text is the runtime's.
\<close>

definition scaled_text :: "simulator \<Rightarrow> float \<Rightarrow> any_float \<Rightarrow> int \<Rightarrow> string" where
  "scaled_text sim v c p =
     (case c of Finite q \<Rightarrow> FloatToString (v * q) p 1 | _ \<Rightarrow> special_text sim v c p)"

text \<open>
  One turn of the loop over \<^verbatim>\<open>subscribedDataRefs\<close> in \<^verbatim>\<open>CollectTelemetryData\<close>; a
  subscription of any other type only writes a line to the debug log.
\<close>

definition collect_sub ::
  "simulator \<Rightarrow> (string \<times> string) list \<Rightarrow> DataRefSubscription \<Rightarrow> (string \<times> string) list" where
  "collect_sub sim td sub =
     (if type sub = ''int''
      then map_set (key sub) (to_string (XPLMGetDatai sim (dataRef sub))) td
      else if type sub = ''float''
      then map_set (key sub)
             (scaled_text sim (XPLMGetDataf sim (dataRef sub)) (conversionFactor sub) (precision sub)) td
      else if type sub = ''double''
      then map_set (key sub)
             (scaled_text sim (XPLMGetDatad sim (dataRef sub)) (conversionFactor sub) (precision sub)) td
      else td)"

text \<open>The assignments of \<^verbatim>\<open>CollectTelemetryData\<close> after that loop, in source order.\<close>

definition builtin_fields :: "simulator \<Rightarrow> state \<Rightarrow> (string \<times> string) list" where
  "builtin_fields sim st =
     [(''src'', ''XPLANE''),
      (''N'', gAircraftName st),
      (''STOP'', to_string (XPLMGetDatai sim gPaused)),
      (''SimPaused'', to_string (of_bool_int (XPLMGetDatai sim gPaused = 1))),
      (''SimOnGround'', to_string (XPLMGetDatai sim gOnGround)),
      (''T'', FloatToString (XPLMGetElapsedTime sim) 3 1),
      (''G'', FloatToString (XPLMGetDataf sim gGs_nrml) 3 1),
      (''Gaxil'', FloatToString (XPLMGetDataf sim gGs_axil) 3 1),
      (''Gside'', FloatToString (XPLMGetDataf sim gGs_side) 3 1),
      (''TAS'', FloatToString (XPLMGetDataf sim gTAS) 3 1),
      (''IAS'', FloatToString (XPLMGetDataf sim gIAS * kt_2_mps) 3 1),
      (''AirDensity'', FloatToString (XPLMGetDataf sim gAirDensity) 3 1),
      (''DynPressure'', FloatToString (XPLMGetDataf sim gDynPress) 3 1),
      (''AoA'', FloatToString (XPLMGetDataf sim gAoA) 3 1),
      (''SideSlip'', FloatToString (XPLMGetDataf sim gSlip) 3 1),
      (''WeightOnWheels'', FloatArrayToString sim gWoW no_convert 3 3),
      (''EngRPM'', FloatArrayToString sim gEngRPM radps_2_rpm (gActiveNumEngines st) 2),
      (''EngPCT'', FloatArrayToString sim gEngPCT no_convert (gActiveNumEngines st) 3),
      (''PropRPM'', FloatArrayToString sim gPropRPM radps_2_rpm (gActiveNumEngines st) 2),
      (''PropThrust'', FloatArrayToString sim gPropThrust no_convert (gActiveNumEngines st) 2),
      (''Afterburner'', FloatArrayToString sim gAfterburner no_convert (gActiveNumEngines st) 2),
      (''RudderDefl'', FloatToString (XPLMGetDataf sim gRudDefl_l) 3 1),
      (''RudderDefl_l'', FloatToString (XPLMGetDataf sim gRudDefl_l) 3 1),
      (''RudderDefl_r'', FloatToString (XPLMGetDataf sim gRudDefl_r) 3 1),
      (''StickForcePitch'', FloatToString (XPLMGetDataf sim gStickForcePitch) 3 1),
      (''StickForceRoll'', FloatToString (XPLMGetDataf sim gStickForceRoll) 3 1),
      (''StickForceYaw'', FloatToString (XPLMGetDataf sim gStickForceYaw) 3 1),
      (''AccBody'',
         FloatToString (XPLMGetDataf sim gAccLocal_x * fps_2_g) 3 1 @ ''~'' @
         FloatToString (XPLMGetDataf sim gAccLocal_y * fps_2_g) 3 1 @ ''~'' @
         FloatToString (XPLMGetDataf sim gAccLocal_z * fps_2_g) 3 1),
      (''VelAcf'',
         FloatToString (XPLMGetDataf sim gVelAcf_x) 3 1 @ ''~'' @
         FloatToString (XPLMGetDataf sim gVelAcf_y) 3 1 @ ''~'' @
         FloatToString (- XPLMGetDataf sim gVelAcf_z) 3 1),
      (''Flaps'', FloatToString (XPLMGetDataf sim gFlaps) 3 1),
      (''Gear'', FloatArrayToString sim gGear no_convert 3 3),
      (''APMode'', to_string (XPLMGetDatai sim gAPMode)),
      (''APServos'', to_string (XPLMGetDatai sim gAPServos)),
      (''APYawServo'', FloatToString (XPLMGetDataf sim gYawServo) 3 1),
      (''APPitchServo'', FloatToString (XPLMGetDataf sim gPitchServo) 3 1),
      (''APRollServo'', FloatToString (XPLMGetDataf sim gRollServo) 3 1),
      (''ElevTrimPct'', FloatToString (XPLMGetDataf sim gElevTrim) 3 1),
      (''AileronTrimPct'', FloatToString (XPLMGetDataf sim gAilerTrim) 3 1),
      (''RudderTrimPct'', FloatToString (XPLMGetDataf sim gRudderTrim) 3 1),
      (''CanopyPos'', FloatToString (XPLMGetDataf sim gCanopyPos) 3 1),
      (''SpeedbrakePos'', FloatToString (XPLMGetDataf sim gSpeedbrakePos) 3 1),
      (''cOvrd'', to_string (of_bool_int (overrideCollective st))),
      (''jOvrd'', to_string (of_bool_int (overrideJoystick st))),
      (''pOvrd'', to_string (of_bool_int (overridePedals st)))]"

definition CollectTelemetryData :: "simulator \<Rightarrow> state \<Rightarrow> state" where
  "CollectTelemetryData sim st =
     (let descr = XPLMGetDatab sim (gAircraftDescr st);
          st1 = st\<lparr>gAircraftName := (if descr = [] then XPLMGetNthAircraftModel sim else descr)\<rparr>;
          st2 = (if gAircraftName st1 \<noteq> gPrevAircraftName st1
                 then (GetACDetails sim st1)\<lparr>gPrevAircraftName := gAircraftName st1\<rparr>
                 else st1);
          st3 = st2\<lparr>telemetryData := foldl (collect_sub sim) (telemetryData st2) (subscribedDataRefs st2)\<rparr>
      in st3\<lparr>telemetryData := assign (builtin_fields sim st3) (telemetryData st3),
             simPaused := (XPLMGetDatai sim gPaused = 1)\<rparr>)"

definition FormatAndSendTelemetryData :: "state \<Rightarrow> state" where
  "FormatAndSendTelemetryData st =
     st\<lparr>sent := sent st @ [concat (map (\<lambda>entry. fst entry @ ''='' @ snd entry @ '';'') (telemetryData st))]\<rparr>"

subsection \<open>Inbound commands\<close>

text \<open>
  The body of the \<^verbatim>\<open>AXIS\<close> loop for one token, and the loop
  \<^verbatim>\<open>while (std::getline(iss, token, ','))\<close> itself. \<^verbatim>\<open>std::stof\<close> may throw; the exception
  leaves the loop and the function.
\<close>

definition axis_pair ::
  "simulator \<Rightarrow> string \<Rightarrow> (string \<times> any_float) list \<Rightarrow> exn + (string \<times> any_float) list" where
  "axis_pair sim token m =
     (case find_char token CHR ''='' of
        None \<Rightarrow> Inr m
      | Some equalsPos \<Rightarrow>
          (case stof sim (drop (equalsPos + 1) token) of
             Inl e \<Rightarrow> Inl e
           | Inr v \<Rightarrow> Inr (map_set (take equalsPos token) v m)))"

definition stream_size :: "istringstream \<Rightarrow> nat" where
  "stream_size iss = length (rdbuf iss) + (if good iss then 1 else 0)"

function axis_loop ::
  "simulator \<Rightarrow> istringstream \<Rightarrow> string \<Rightarrow> (string \<times> any_float) list \<Rightarrow>
   exn + (string \<times> any_float) list" where
  "axis_loop sim iss token m =
     (let r = getline iss token CHR '','' in
      if fst r
      then (case axis_pair sim (fst (snd r)) m of
              Inl e \<Rightarrow> Inl e
            | Inr m' \<Rightarrow> axis_loop sim (snd (snd r)) (fst (snd r)) m')
      else Inr m)"
  by pat_completeness auto

termination axis_loop
  by (relation "measure (\<lambda>(sim, iss, token, m). stream_size iss)")
     (auto simp: getline_def stream_size_def less_Suc_eq_le length_dropWhile_le split: if_splits)

declare axis_loop.simps [simp del]

text \<open>
  The \<^verbatim>\<open>SUBSCRIBE\<close> loop: a field name up to \<^verbatim>\<open>=\<close>, then its value up to \<^verbatim>\<open>,\<close>. The
  result of the second \<^verbatim>\<open>getline\<close> is not tested, so when it fails \<open>value\<close> keeps what
  the turn before left in it.
\<close>

function subscribe_loop ::
  "istringstream \<Rightarrow> string \<Rightarrow> string \<Rightarrow> (string \<times> string) list \<Rightarrow> (string \<times> string) list" where
  "subscribe_loop iss k v parameters =
     (let r1 = getline iss k CHR ''='' in
      if fst r1
      then (let r2 = getline (snd (snd r1)) v CHR '','' in
            subscribe_loop (snd (snd r2)) (fst (snd r1)) (fst (snd r2))
              (map_set (fst (snd r1)) (fst (snd r2)) parameters))
      else parameters)"
  by pat_completeness auto

termination subscribe_loop
proof (relation "measure (\<lambda>(iss, k, v, parameters). stream_size iss)")
  fix iss :: istringstream and k v :: string and parameters :: "(string \<times> string) list"
    and r1 r2
  assume r1: "r1 = getline iss k CHR ''=''" and ok: "fst r1"
    and r2: "r2 = getline (snd (snd r1)) v CHR '',''"
  have "stream_size (snd (snd r2)) \<le> stream_size (snd (snd r1))"
    unfolding r2 by (simp add: getline_def stream_size_def length_dropWhile_le le_SucI)
  moreover have "stream_size (snd (snd r1)) < stream_size iss"
    using ok unfolding r1
    by (auto simp: getline_def stream_size_def less_Suc_eq_le length_dropWhile_le
             split: if_splits)
  ultimately show "((snd (snd r2), fst (snd r1), fst (snd r2),
                     map_set (fst (snd r1)) (fst (snd r2)) parameters),
                    iss, k, v, parameters)
                   \<in> measure (\<lambda>(iss, k, v, parameters). stream_size iss)"
    by simp
qed simp

declare subscribe_loop.simps [simp del]

definition ProcessReceivedData :: "simulator \<Rightarrow> bool \<Rightarrow> state \<Rightarrow> string \<Rightarrow> string \<Rightarrow> exn + state" where
  "ProcessReceivedData sim junk st dataType payload =
     (if dataType = ''AXIS''
      then (case axis_loop sim (istringstream payload) '''' (axisDataMap st) of
              Inl e \<Rightarrow> Inl e
            | Inr m \<Rightarrow> Inr (st\<lparr>axisDataMap := m\<rparr>))
      else if dataType = ''OVERRIDE''
      then (let r = getline (istringstream payload) '''' CHR ''='' in
            if fst r
            then (let keyword = fst (snd r);
                      overrideValue = extract_boolalpha junk (snd (snd r))
                  in if keyword = ''joystick''
                     then Inr (st\<lparr>written := written st @
                                   [XPLMSetDatai gRollOvd (of_bool_int overrideValue),
                                    XPLMSetDatai gPitchOvd (of_bool_int overrideValue)],
                                 overrideJoystick := overrideValue\<rparr>)
                     else if keyword = ''pedals''
                     then Inr (st\<lparr>written := written st @
                                   [XPLMSetDatai gYawOvd (of_bool_int overrideValue)],
                                 overridePedals := overrideValue\<rparr>)
                     else if keyword = ''collective''
                     then Inr (st\<lparr>written := written st @
                                   [XPLMSetDatai gCollectiveOvd (of_bool_int overrideValue)],
                                 overrideCollective := overrideValue\<rparr>)
                     else Inr st)
            else Inr st)
      else if dataType = ''SUBSCRIBE''
      then (let parameters = subscribe_loop (istringstream payload) '''' '''' [];
                (datarefStr, parameters1) = map_at '''' parameters ''dataref'';
                (typeStr, parameters2) = map_at '''' parameters1 ''type'';
                (tagStr, parameters3) = map_at '''' parameters2 ''tag''
            in case (if map_has parameters3 ''precision''
                     then stoi (fst (map_at '''' parameters3 ''precision'')) else Inr 3) of
                 Inl e \<Rightarrow> Inl e
               | Inr p \<Rightarrow>
                   (case (if map_has parameters3 ''conversion''
                          then stof sim (fst (map_at '''' parameters3 ''conversion''))
                          else Inr (Finite 1)) of
                      Inl e \<Rightarrow> Inl e
                    | Inr c \<Rightarrow> Inr (RegisterDataRef sim datarefStr tagStr typeStr p c st)))
      else Inr st)"

text \<open>
  \<^verbatim>\<open>ReceiveData\<close> on one datagram of the inbound socket. \<^verbatim>\<open>recvfrom\<close> fails on a datagram
  that does not fit the 1024 bytes of \<^verbatim>\<open>buffer\<close>, and returns 0 for an empty one; in both
  cases nothing is processed. A datagram of exactly 1024 bytes makes the terminating NUL
  land one byte behind \<^verbatim>\<open>buffer\<close>. The stream is built from \<^verbatim>\<open>buffer\<close> as a C string.
\<close>

datatype fault = uncaught exn | buffer_overrun

definition ReceiveData :: "simulator \<Rightarrow> bool \<Rightarrow> state \<Rightarrow> string \<Rightarrow> fault + state" where
  "ReceiveData sim junk st datagram =
     (if length datagram = 0 \<or> 1024 < length datagram then Inr st
      else if length datagram = 1024 then Inl buffer_overrun
      else (let iss = istringstream (takeWhile (\<lambda>c. c \<noteq> CHR 0x00) datagram);
                r1 = getline iss '''' CHR '':'';
                r2 = getline (snd (snd r1)) '''' CHR 0x0A
            in case ProcessReceivedData sim junk st (fst (snd r1)) (fst (snd r2)) of
                 Inl e \<Rightarrow> Inl (uncaught e)
               | Inr st' \<Rightarrow> Inr st'))"

subsection \<open>The frame callback\<close>

definition SendAxisPosition :: "state \<Rightarrow> state" where
  "SendAxisPosition st =
     (let st1 = (if overrideJoystick st
                 then (let (jx, m1) = map_at (Finite 0) (axisDataMap st) ''jx'';
                           (jy, m2) = map_at (Finite 0) m1 ''jy''
                       in st\<lparr>axisDataMap := m2,
                             written := written st @
                               [XPLMSetDataf gRollRatio jx, XPLMSetDataf gPitchRatio jy]\<rparr>)
                 else st);
          st2 = (if overridePedals st1
                 then (let (px, m1) = map_at (Finite 0) (axisDataMap st1) ''px''
                       in st1\<lparr>axisDataMap := m1,
                              written := written st1 @ [XPLMSetDataf gYawRatio px]\<rparr>)
                 else st1)
      in if overrideCollective st2
         then (let (cy, m1) = map_at (Finite 0) (axisDataMap st2) ''cy''
               in st2\<lparr>axisDataMap := m1,
                      written := written st2 @ [XPLMSetDataf gCollectiveRatio cy]\<rparr>)
         else st2)"

definition MyFlightLoopCallback :: "simulator \<Rightarrow> state \<Rightarrow> state" where
  "MyFlightLoopCallback sim st =
     (let st1 = SendAxisPosition st;
          st2 = CollectTelemetryData sim st1
      in if \<not> simPaused st2 then FormatAndSendTelemetryData st2 else st2)"

section \<open>Notions used in the statements\<close>

text \<open>
  The tokens that \<^verbatim>\<open>while (std::getline(iss, token, delim))\<close> hands to its body, in order.
\<close>

function getlines :: "istringstream \<Rightarrow> string \<Rightarrow> char \<Rightarrow> string list" where
  "getlines iss str delim =
     (let r = getline iss str delim in
      if fst r then fst (snd r) # getlines (snd (snd r)) (fst (snd r)) delim else [])"
  by pat_completeness auto

termination getlines
  by (relation "measure (\<lambda>(iss, str, delim). stream_size iss)")
     (auto simp: getline_def stream_size_def less_Suc_eq_le length_dropWhile_le split: if_splits)

declare getlines.simps [simp del]

definition axis_tokens :: "string \<Rightarrow> string list" where
  "axis_tokens payload = getlines (istringstream payload) '''' CHR '',''"

text \<open>
  What one token of an \<^verbatim>\<open>AXIS\<close> payload asks for: nothing when it has no \<^verbatim>\<open>=\<close>, otherwise
  the key before the first \<^verbatim>\<open>=\<close> and what \<^verbatim>\<open>std::stof\<close> makes of the text behind it.
\<close>

definition axis_request :: "simulator \<Rightarrow> string \<Rightarrow> (string \<times> (exn + any_float)) option" where
  "axis_request sim token =
     (case find_char token CHR ''='' of
        None \<Rightarrow> None
      | Some equalsPos \<Rightarrow> Some (take equalsPos token, stof sim (drop (equalsPos + 1) token)))"

text \<open>
  The update that a token makes (its value is accepted), and whether a token makes
  \<^verbatim>\<open>std::stof\<close> throw (it has an \<^verbatim>\<open>=\<close> and its value is rejected).
\<close>

definition token_update :: "simulator \<Rightarrow> string \<Rightarrow> (string \<times> any_float) option" where
  "token_update sim token =
     (case axis_request sim token of Some (k, Inr v) \<Rightarrow> Some (k, v) | _ \<Rightarrow> None)"

definition token_rejected :: "simulator \<Rightarrow> string \<Rightarrow> bool" where
  "token_rejected sim token =
     (case axis_request sim token of Some (k, Inl e) \<Rightarrow> True | _ \<Rightarrow> False)"

text \<open>The updates of a whole \<^verbatim>\<open>AXIS\<close> payload in payload order, and whether it has a rejected token.\<close>

definition axis_updates :: "simulator \<Rightarrow> string \<Rightarrow> (string \<times> any_float) list" where
  "axis_updates sim payload = List.map_filter (token_update sim) (axis_tokens payload)"

definition axis_rejected :: "simulator \<Rightarrow> string \<Rightarrow> bool" where
  "axis_rejected sim payload = list_ex (token_rejected sim) (axis_tokens payload)"

text \<open>The fields that the \<^verbatim>\<open>SUBSCRIBE\<close> loop finds in a payload, and one of them by name.\<close>

definition subscribe_fields :: "string \<Rightarrow> (string \<times> string) list" where
  "subscribe_fields payload = subscribe_loop (istringstream payload) '''' '''' []"

definition subscribe_field :: "string \<Rightarrow> string \<Rightarrow> string" where
  "subscribe_field payload name =
     (case map_of (subscribe_fields payload) name of Some v \<Rightarrow> v | None \<Rightarrow> '''')"

text \<open>The value of an axis as \<^verbatim>\<open>axisDataMap[k]\<close> reads it.\<close>

definition axis_value :: "state \<Rightarrow> string \<Rightarrow> any_float" where
  "axis_value st k = fst (map_at (Finite 0) (axisDataMap st) k)"

definition canonical_axes :: "string list" where
  "canonical_axes = [''jx'', ''jy'', ''px'', ''cy'']"

text \<open>The keys that \<open>CollectTelemetryData\<close> assigns on every call, whatever is subscribed.\<close>

definition builtin_keys :: "string list" where
  "builtin_keys =
     [''src'', ''N'', ''STOP'', ''SimPaused'', ''SimOnGround'', ''T'', ''G'', ''Gaxil'', ''Gside'',
      ''TAS'', ''IAS'', ''AirDensity'', ''DynPressure'', ''AoA'', ''SideSlip'', ''WeightOnWheels'',
      ''EngRPM'', ''EngPCT'', ''PropRPM'', ''PropThrust'', ''Afterburner'', ''RudderDefl'',
      ''RudderDefl_l'', ''RudderDefl_r'', ''StickForcePitch'', ''StickForceRoll'',
      ''StickForceYaw'', ''AccBody'', ''VelAcf'', ''Flaps'', ''Gear'', ''APMode'', ''APServos'',
      ''APYawServo'', ''APPitchServo'', ''APRollServo'', ''ElevTrimPct'', ''AileronTrimPct'',
      ''RudderTrimPct'', ''CanopyPos'', ''SpeedbrakePos'', ''cOvrd'', ''jOvrd'', ''pOvrd'']"

text \<open>
  The values that a list of writes sends to one float channel, and the writes that one
  frame callback adds.
\<close>

fun float_writes :: "XPLMDataRef \<Rightarrow> sim_write list \<Rightarrow> any_float list" where
  "float_writes r [] = []"
| "float_writes r (XPLMSetDataf r' v # ws) =
     (if r' = r then v # float_writes r ws else float_writes r ws)"
| "float_writes r (XPLMSetDatai r' i # ws) = float_writes r ws"

definition frame_writes :: "simulator \<Rightarrow> state \<Rightarrow> sim_write list" where
  "frame_writes sim st = drop (length (written st)) (written (MyFlightLoopCallback sim st))"

text \<open>
  The highest index of the 10-entry gear tables at which X, Y or Z is not zero, if there is
  one: the quantity that the gear count is specified to be.
\<close>

definition highest_nonzero_index :: "simulator \<Rightarrow> nat option" where
  "highest_nonzero_index sim =
     (let arrayX = read_vector sim gGearXNode 10;
          arrayY = read_vector sim gGearYNode 10;
          arrayZ = read_vector sim gGearZNode 10
      in case filter (\<lambda>i. list_ex (\<lambda>v. v \<noteq> 0) [arrayX ! i, arrayY ! i, arrayZ ! i]) (rev [0..<10]) of
           [] \<Rightarrow> None
         | i # _ \<Rightarrow> Some i)"

text \<open>The keys of a map, and the text that \<open>FormatAndSendTelemetryData\<close> makes of one.\<close>

definition keys :: "('k \<times> 'v) list \<Rightarrow> 'k set" where
  "keys m = fst ` set m"

definition encode :: "(string \<times> string) list \<Rightarrow> string" where
  "encode m = concat (map (\<lambda>entry. fst entry @ ''='' @ snd entry @ '';'') m)"

text \<open>
  A list that represents a \<^verbatim>\<open>std::map\<close>: its keys increase strictly, so there is one entry
  per key and the list order is the iteration order.
\<close>

definition ordered :: "('k::linorder \<times> 'v) list \<Rightarrow> bool" where
  "ordered m = sorted_wrt (<) (map fst m)"

text \<open>
  The states the plugin can be in: the one after start-up, and those that frame callbacks
  and received datagrams lead to, under any simulator answers. A datagram whose processing
  faults ends the run and has no state after it.
\<close>

inductive reachable :: "state \<Rightarrow> bool" where
  start: "reachable (XPluginStart sim)"
| frame: "reachable st \<Longrightarrow> reachable (MyFlightLoopCallback sim st)"
| receive: "reachable st \<Longrightarrow> ReceiveData sim junk st datagram = Inr st' \<Longrightarrow> reachable st'"

subsection \<open>Simulators for the concrete runs\<close>

text \<open>
  \<open>demo_sim\<close> resolves three paths, reads 7 and 9 as the integers behind two of them and 3
  as every float, and has no array data. Its runtime reads \<^verbatim>\<open>inf\<close> as the positive
  infinity and \<^verbatim>\<open>0x10\<close> as 16, reports a range error for \<^verbatim>\<open>1e-50\<close> (three answers that
  runtimes give outside the plain decimals) and finds no number in any other text that
  \<open>stof\<close> passes to it; it prints a product that is not finite as \<^verbatim>\<open>inf\<close>, \<^verbatim>\<open>-inf\<close> or
  \<^verbatim>\<open>nan\<close> and a product with the negative zero as a zero of the opposite sign. The
  others differ from it in one answer:
  \<open>paused_sim\<close> reports the pause flag as 1, \<open>array_sim vs\<close> returns \<open>vs\<close> for every array,
  and \<open>five_gear_sim\<close> has gear coordinates for five legs.
\<close>

definition demo_sim :: simulator where
  "demo_sim =
     \<lparr>resolves = (\<lambda>p. p = ''sim/a'' \<or> p = ''sim/b'' \<or> p = ''sim/x''),
      XPLMGetDatai = (\<lambda>r. if r = ''sim/a'' then 7 else if r = ''sim/b'' then 9 else 0),
      XPLMGetDataf = (\<lambda>r. 3),
      XPLMGetDatad = (\<lambda>r. 3),
      XPLMGetDatavf = (\<lambda>r. []),
      XPLMGetDatab = (\<lambda>r. ''C172''),
      XPLMGetNthAircraftModel = ''Cessna_172SP.acf'',
      XPLMGetElapsedTime = 0,
      strtof_other =
        (\<lambda>s. if s = ''inf'' then Inr (Infinity False)
             else if s = ''0x10'' then Inr (Finite 16)
             else if s = ''1e-50'' then Inl out_of_range
             else Inl invalid_argument),
      special_text =
        (\<lambda>v c p. case c of
                   Infinity neg \<Rightarrow> if v = 0 then ''nan'' else if neg = (v < 0) then ''inf'' else ''-inf''
                 | MinusZero \<Rightarrow> (if 0 < v then ''-'' else []) @ FloatToString 0 p 1
                 | _ \<Rightarrow> ''nan'')\<rparr>"

definition paused_sim :: simulator where
  "paused_sim = demo_sim\<lparr>XPLMGetDatai := (\<lambda>r. if r = gPaused then 1 else 0)\<rparr>"

definition array_sim :: "float list \<Rightarrow> simulator" where
  "array_sim vs = demo_sim\<lparr>XPLMGetDatavf := (\<lambda>r. vs)\<rparr>"

definition five_gear_sim :: simulator where
  "five_gear_sim =
     demo_sim\<lparr>XPLMGetDatavf :=
       (\<lambda>r. if r = gGearXNode then [0, - 3, 3, - 1, 1]
            else if r = gGearYNode then [- 2, - 2, - 2, - 2, - 2]
            else if r = gGearZNode then [- 10, 2, 2, 3, 3]
            else [])\<rparr>"

section \<open>Facts about the maps and the frame callback\<close>

lemma map_of_map_set: "map_of (map_set k v m) = (map_of m)(k \<mapsto> v)"
  by (induction m) (auto simp: fun_upd_twist)

lemma keys_dom: "keys m = dom (map_of m)"
  by (simp add: keys_def dom_map_of_conv_image_fst)

lemma keys_map_set: "keys (map_set k v m) = insert k (keys m)"
  by (simp add: keys_dom map_of_map_set)

lemma keys_assign: "keys (assign kvs m) = keys m \<union> fst ` set kvs"
  unfolding assign_def by (induction kvs arbitrary: m) (auto simp: keys_map_set)

lemma map_of_assign: "map_of (assign kvs m) = map_of m ++ map_of (rev kvs)"
  unfolding assign_def
  by (induction kvs arbitrary: m) (auto simp: map_of_map_set map_add_upd_left)

lemma keys_collect_sub_mono: "keys td \<subseteq> keys (collect_sub sim td sub)"
  by (auto simp: collect_sub_def keys_map_set)

lemma keys_collect_loop_mono: "keys td \<subseteq> keys (foldl (collect_sub sim) td subs)"
proof (induction subs arbitrary: td)
  case Nil
  show ?case by simp
next
  case (Cons sub subs)
  have "keys td \<subseteq> keys (collect_sub sim td sub)" by (rule keys_collect_sub_mono)
  also have "\<dots> \<subseteq> keys (foldl (collect_sub sim) (collect_sub sim td sub) subs)" by (rule Cons.IH)
  finally show ?case by simp
qed

lemma key_collect_sub:
  "type sub \<in> {''int'', ''float'', ''double''} \<Longrightarrow> key sub \<in> keys (collect_sub sim td sub)"
  by (auto simp: collect_sub_def keys_map_set)

lemma key_collect_loop:
  "sub \<in> set subs \<Longrightarrow> type sub \<in> {''int'', ''float'', ''double''} \<Longrightarrow>
   key sub \<in> keys (foldl (collect_sub sim) td subs)"
proof (induction subs arbitrary: td)
  case Nil
  then show ?case by simp
next
  case (Cons s subs)
  show ?case
  proof (cases "sub = s")
    case True
    then have "key sub \<in> keys (collect_sub sim td s)" using Cons.prems(2) by (simp add: key_collect_sub)
    then show ?thesis using keys_collect_loop_mono [of "collect_sub sim td s" sim subs] by auto
  next
    case False
    then show ?thesis using Cons by simp
  qed
qed

lemma builtin_fields_keys: "map fst (builtin_fields sim st) = builtin_keys"
  by (simp add: builtin_fields_def builtin_keys_def)

lemma SendAxisPosition_fields:
  "subscribedDataRefs (SendAxisPosition st) = subscribedDataRefs st"
  "telemetryData (SendAxisPosition st) = telemetryData st"
  "sent (SendAxisPosition st) = sent st"
  "overrideJoystick (SendAxisPosition st) = overrideJoystick st"
  "overridePedals (SendAxisPosition st) = overridePedals st"
  "overrideCollective (SendAxisPosition st) = overrideCollective st"
  by (simp_all add: SendAxisPosition_def Let_def split: prod.splits)

lemma GetACDetails_fields:
  "subscribedDataRefs (GetACDetails sim st) = subscribedDataRefs st"
  "sent (GetACDetails sim st) = sent st"
  "written (GetACDetails sim st) = written st"
  "axisDataMap (GetACDetails sim st) = axisDataMap st"
  by (simp_all add: GetACDetails_def Let_def)

lemma CollectTelemetryData_fields:
  "subscribedDataRefs (CollectTelemetryData sim st) = subscribedDataRefs st"
  "sent (CollectTelemetryData sim st) = sent st"
  "written (CollectTelemetryData sim st) = written st"
  "axisDataMap (CollectTelemetryData sim st) = axisDataMap st"
  "simPaused (CollectTelemetryData sim st) = (XPLMGetDatai sim gPaused = 1)"
  by (simp_all add: CollectTelemetryData_def Let_def GetACDetails_fields)

lemma CollectTelemetryData_snapshot:
  "\<exists>st' td. telemetryData (CollectTelemetryData sim st) =
     assign (builtin_fields sim st') (foldl (collect_sub sim) td (subscribedDataRefs st))"
  by (auto simp: CollectTelemetryData_def Let_def GetACDetails_fields)

lemma FormatAndSendTelemetryData_fields:
  "telemetryData (FormatAndSendTelemetryData st) = telemetryData st"
  "sent (FormatAndSendTelemetryData st) = sent st @ [encode (telemetryData st)]"
  "written (FormatAndSendTelemetryData st) = written st"
  "axisDataMap (FormatAndSendTelemetryData st) = axisDataMap st"
  "subscribedDataRefs (FormatAndSendTelemetryData st) = subscribedDataRefs st"
  by (simp_all add: FormatAndSendTelemetryData_def encode_def)

lemma frame_snapshot:
  "telemetryData (MyFlightLoopCallback sim st) = telemetryData (CollectTelemetryData sim (SendAxisPosition st))"
  by (simp add: MyFlightLoopCallback_def Let_def FormatAndSendTelemetryData_fields)

lemma map_at_value: "fst (map_at d m k) = (case map_of m k of Some v \<Rightarrow> v | None \<Rightarrow> d)"
  by (simp add: map_at_def split: option.splits)

lemma map_at_map:
  "map_of (snd (map_at d m k)) = (case map_of m k of Some v \<Rightarrow> map_of m | None \<Rightarrow> (map_of m)(k \<mapsto> d))"
  by (simp add: map_at_def map_of_map_set split: option.splits)

lemma map_at_value_after: "fst (map_at d (snd (map_at d m k)) k') = fst (map_at d m k')"
  by (simp add: map_at_value map_at_map split: option.splits)

lemma SendAxisPosition_written:
  "written (SendAxisPosition st) =
     written st @
     (if overrideJoystick st
      then [XPLMSetDataf gRollRatio (axis_value st ''jx''), XPLMSetDataf gPitchRatio (axis_value st ''jy'')]
      else []) @
     (if overridePedals st then [XPLMSetDataf gYawRatio (axis_value st ''px'')] else []) @
     (if overrideCollective st then [XPLMSetDataf gCollectiveRatio (axis_value st ''cy'')] else [])"
  by (simp add: SendAxisPosition_def Let_def axis_value_def split_beta map_at_value_after)

lemma frame_written: "written (MyFlightLoopCallback sim st) = written (SendAxisPosition st)"
  by (simp add: MyFlightLoopCallback_def Let_def CollectTelemetryData_fields
        FormatAndSendTelemetryData_fields)

lemma override_joystick_true:
  "ProcessReceivedData sim junk st ''OVERRIDE'' ''joystick=true'' =
     Inr (st\<lparr>written := written st @ [XPLMSetDatai gRollOvd 1, XPLMSetDatai gPitchOvd 1],
            overrideJoystick := True\<rparr>)"
  by (simp add: ProcessReceivedData_def getline_def istringstream_def extract_boolalpha_def
        isspace_def of_bool_int_def Let_def)

lemma stof_half: "stof sim ''0.5'' = Inr (Finite (1 / 2))"
  by code_simp

lemma stof_minus_fifth: "stof sim ''-0.2'' = Inr (Finite (- (13421773 / 67108864)))"
  by code_simp

text \<open>
  What \<open>stof\<close> decides by itself, with the rounding at \<open>2 ^ 24 + 1\<close> and at both sides of
  the largest binary32 value, and what it leaves to the runtime.
\<close>

lemma stof_decided:
  "stof sim ''abc'' = Inl invalid_argument"
  "stof sim '''' = Inl invalid_argument"
  "stof sim '' +1.5xyz'' = Inr (Finite (3 / 2))"
  "stof sim ''-0'' = Inr MinusZero"
  "stof sim ''0.1'' = Inr (Finite (13421773 / 134217728))"
  "stof sim ''16777217'' = Inr (Finite 16777216)"
  "stof sim ''340282346638528859811704183484516925440'' =
     Inr (Finite 340282346638528859811704183484516925440)"
  "stof sim ''340282356779733661637539395458142568447'' =
     Inr (Finite 340282346638528859811704183484516925440)"
  "stof sim ''340282356779733661637539395458142568448'' = Inl out_of_range"
  by code_simp+

lemma stof_left_to_the_runtime:
  "stof sim ''inf'' = strtof_other sim ''inf''"
  "stof sim ''-nan'' = strtof_other sim ''-nan''"
  "stof sim ''0x10'' = strtof_other sim ''0x10''"
  "stof sim ''1e-50'' = strtof_other sim ''1e-50''"
  "stof sim ''2.5e3'' = strtof_other sim ''2.5e3''"
  "stof sim ''0.00000000000000000000000000000000000001'' =
     strtof_other sim ''0.00000000000000000000000000000000000001''"
  by code_simp+

lemma axis_jx_jy:
  "axis_loop sim (istringstream ''jx=0.5,jy=-0.2'') '''' m =
     Inr (map_set ''jy'' (Finite (- (13421773 / 67108864))) (map_set ''jx'' (Finite (1 / 2)) m))"
  by (simp add: axis_loop.simps Let_def getline_def istringstream_def axis_pair_def
        stof_half stof_minus_fifth)

subsection \<open>The command loops\<close>

lemma axis_pair_request:
  "axis_pair sim token m =
     (case axis_request sim token of
        None \<Rightarrow> Inr m
      | Some (k, Inl e) \<Rightarrow> Inl e
      | Some (k, Inr v) \<Rightarrow> Inr (map_set k v m))"
  by (simp add: axis_pair_def axis_request_def split: option.splits sum.splits)

lemma axis_pair_cases:
  "axis_pair sim token m = Inr m' \<Longrightarrow>
     \<not> token_rejected sim token \<and>
     map_of m' = map_of m ++ map_of (rev (List.map_filter (token_update sim) [token]))"
  by (auto simp: axis_pair_request token_rejected_def token_update_def List.map_filter_simps
        map_of_map_set split: option.splits sum.splits)

lemma axis_pair_Inl: "axis_pair sim token m = Inl e \<Longrightarrow> token_rejected sim token"
  by (auto simp: axis_pair_request token_rejected_def split: option.splits sum.splits)

lemma axis_loop_returns:
  "axis_loop sim iss token m = Inr m' \<Longrightarrow>
     \<not> list_ex (token_rejected sim) (getlines iss token CHR '','') \<and>
     map_of m' = map_of m ++ map_of (rev (List.map_filter (token_update sim) (getlines iss token CHR '','')))"
proof (induction sim iss token m rule: axis_loop.induct)
  case (1 sim iss token m)
  let ?r = "getline iss token CHR '',''"
  show ?case
  proof (cases "fst ?r")
    case False
    then show ?thesis
      using "1.prems" by (simp add: axis_loop.simps [of sim iss token m] getlines.simps [of iss token]
          List.map_filter_simps)
  next
    case True
    then obtain m1 where m1: "axis_pair sim (fst (snd ?r)) m = Inr m1"
      and rest: "axis_loop sim (snd (snd ?r)) (fst (snd ?r)) m1 = Inr m'"
      using "1.prems" by (auto simp: axis_loop.simps [of sim iss token m] Let_def split: sum.splits)
    have ih: "\<not> list_ex (token_rejected sim) (getlines (snd (snd ?r)) (fst (snd ?r)) CHR '','') \<and>
      map_of m' = map_of m1 ++
        map_of (rev (List.map_filter (token_update sim) (getlines (snd (snd ?r)) (fst (snd ?r)) CHR '','')))"
      using "1.IH" [OF refl True m1 rest] .
    have gl: "getlines iss token CHR '','' =
        fst (snd ?r) # getlines (snd (snd ?r)) (fst (snd ?r)) CHR '',''"
      using True by (simp add: getlines.simps [of iss token] Let_def)
    show ?thesis
      using ih axis_pair_cases [OF m1]
      by (auto simp: gl List.map_filter_simps split: option.splits)
  qed
qed

lemma axis_loop_raises:
  "axis_loop sim iss token m = Inl e \<Longrightarrow> list_ex (token_rejected sim) (getlines iss token CHR '','')"
proof (induction sim iss token m rule: axis_loop.induct)
  case (1 sim iss token m)
  let ?r = "getline iss token CHR '',''"
  show ?case
  proof (cases "fst ?r")
    case False
    then show ?thesis using "1.prems" by (simp add: axis_loop.simps [of sim iss token m])
  next
    case True
    have gl: "getlines iss token CHR '','' =
        fst (snd ?r) # getlines (snd (snd ?r)) (fst (snd ?r)) CHR '',''"
      using True by (simp add: getlines.simps [of iss token] Let_def)
    show ?thesis
    proof (cases "axis_pair sim (fst (snd ?r)) m")
      case (Inl e')
      then show ?thesis by (simp add: gl axis_pair_Inl)
    next
      case (Inr m1)
      then have "axis_loop sim (snd (snd ?r)) (fst (snd ?r)) m1 = Inl e"
        using "1.prems" True by (simp add: axis_loop.simps [of sim iss token m] Let_def)
      then show ?thesis using "1.IH" [OF refl True Inr] by (simp add: gl)
    qed
  qed
qed

lemma ProcessReceivedData_AXIS:
  "ProcessReceivedData sim junk st ''AXIS'' payload =
     (case axis_loop sim (istringstream payload) '''' (axisDataMap st) of
        Inl e \<Rightarrow> Inl e | Inr m \<Rightarrow> Inr (st\<lparr>axisDataMap := m\<rparr>))"
  by (simp add: ProcessReceivedData_def)

lemma axis_command_returns:
  assumes "ProcessReceivedData sim junk st ''AXIS'' payload = Inr st'"
  shows "st' = st\<lparr>axisDataMap := axisDataMap st'\<rparr>"
    and "\<not> axis_rejected sim payload"
    and "map_of (axisDataMap st') = map_of (axisDataMap st) ++ map_of (rev (axis_updates sim payload))"
proof -
  obtain m where m: "axis_loop sim (istringstream payload) '''' (axisDataMap st) = Inr m"
    and st': "st' = st\<lparr>axisDataMap := m\<rparr>"
    using assms by (auto simp: ProcessReceivedData_AXIS split: sum.splits)
  show "st' = st\<lparr>axisDataMap := axisDataMap st'\<rparr>" by (simp add: st')
  show "\<not> axis_rejected sim payload"
    using axis_loop_returns [OF m] by (simp add: axis_rejected_def axis_tokens_def)
  show "map_of (axisDataMap st') = map_of (axisDataMap st) ++ map_of (rev (axis_updates sim payload))"
    using axis_loop_returns [OF m] by (simp add: st' axis_updates_def axis_tokens_def)
qed

lemma axis_command_raises:
  "ProcessReceivedData sim junk st ''AXIS'' payload = Inl e \<Longrightarrow> axis_rejected sim payload"
  by (auto simp: ProcessReceivedData_AXIS axis_rejected_def axis_tokens_def
        split: sum.splits dest: axis_loop_raises)

lemma map_at_other: "k' \<noteq> k \<Longrightarrow> map_of (snd (map_at d m k)) k' = map_of m k'"
  by (simp add: map_at_map split: option.splits)

lemma ProcessReceivedData_SUBSCRIBE:
  "ProcessReceivedData sim junk st ''SUBSCRIBE'' payload =
     (case (if map_has (subscribe_fields payload) ''precision''
            then stoi (subscribe_field payload ''precision'') else Inr 3) of
        Inl e \<Rightarrow> Inl e
      | Inr p \<Rightarrow>
          (case (if map_has (subscribe_fields payload) ''conversion''
                 then stof sim (subscribe_field payload ''conversion'') else Inr (Finite 1)) of
             Inl e \<Rightarrow> Inl e
           | Inr c \<Rightarrow>
               Inr (RegisterDataRef sim (subscribe_field payload ''dataref'')
                      (subscribe_field payload ''tag'') (subscribe_field payload ''type'') p c st)))"
  by (simp add: ProcessReceivedData_def Let_def split_beta map_has_def map_at_other
        map_at_value subscribe_field_def subscribe_fields_def cong: sum.case_cong if_cong)

lemma RegisterDataRef_fields:
  "axisDataMap (RegisterDataRef sim path k t p c st) = axisDataMap st"
  "written (RegisterDataRef sim path k t p c st) = written st"
  "telemetryData (RegisterDataRef sim path k t p c st) = telemetryData st"
  "overrideJoystick (RegisterDataRef sim path k t p c st) = overrideJoystick st"
  by (simp_all add: RegisterDataRef_def split: option.splits)

lemma ProcessReceivedData_axes_and_writes:
  assumes "ProcessReceivedData sim junk st dataType payload = Inr st'"
  shows "keys (axisDataMap st) \<subseteq> keys (axisDataMap st')"
    and "\<exists>ws. written st' = written st @ ws \<and> (\<forall>r. float_writes r ws = [])"
proof -
  consider (axis) "dataType = ''AXIS''" | (override) "dataType = ''OVERRIDE''"
    | (subscribe) "dataType = ''SUBSCRIBE''"
    | (unknown) "dataType \<noteq> ''AXIS''" "dataType \<noteq> ''OVERRIDE''" "dataType \<noteq> ''SUBSCRIBE''"
    by blast
  then have "keys (axisDataMap st) \<subseteq> keys (axisDataMap st') \<and>
             (\<exists>ws. written st' = written st @ ws \<and> (\<forall>r. float_writes r ws = []))"
  proof cases
    case axis
    from assms have a: "ProcessReceivedData sim junk st ''AXIS'' payload = Inr st'"
      by (simp add: axis)
    have "written st' = written st"
      using axis_command_returns(1) [OF a] by (metis state.select_convs(13) state.surjective state.update_convs(9))
    then show ?thesis
      using axis_command_returns(3) [OF a] by (auto simp: keys_dom)
  next
    case override
    then show ?thesis
      using assms
      by (auto simp: ProcessReceivedData_def Let_def split: if_splits)
  next
    case subscribe
    then show ?thesis
      using assms
      by (auto simp: ProcessReceivedData_SUBSCRIBE RegisterDataRef_fields split: sum.splits if_splits)
  next
    case unknown
    then show ?thesis using assms by (simp add: ProcessReceivedData_def)
  qed
  then show "keys (axisDataMap st) \<subseteq> keys (axisDataMap st')"
    and "\<exists>ws. written st' = written st @ ws \<and> (\<forall>r. float_writes r ws = [])"
    by blast+
qed

lemma ReceiveData_cases:
  assumes "ReceiveData sim junk st datagram = Inr st'"
  shows "st' = st \<or> (\<exists>dataType payload. ProcessReceivedData sim junk st dataType payload = Inr st')"
  using assms by (auto simp: ReceiveData_def Let_def split: if_splits sum.splits)

lemma SendAxisPosition_axes: "keys (axisDataMap st) \<subseteq> keys (axisDataMap (SendAxisPosition st))"
  unfolding SendAxisPosition_def Let_def split_beta
  by (auto simp: keys_dom map_at_map split: option.splits)

lemma frame_axes: "keys (axisDataMap st) \<subseteq> keys (axisDataMap (MyFlightLoopCallback sim st))"
  using SendAxisPosition_axes [of st]
  by (simp add: MyFlightLoopCallback_def Let_def CollectTelemetryData_fields
        FormatAndSendTelemetryData_fields)

lemma reachable_canonical_axes: "reachable st \<Longrightarrow> set canonical_axes \<subseteq> keys (axisDataMap st)"
proof (induction rule: reachable.induct)
  case (start sim)
  show ?case by (simp add: XPluginStart_def canonical_axes_def keys_def)
next
  case (frame st sim)
  then show ?case using frame_axes [of st sim] by blast
next
  case (receive st sim junk datagram st')
  from ReceiveData_cases [OF receive.hyps(2)]
  have "keys (axisDataMap st) \<subseteq> keys (axisDataMap st')"
    using ProcessReceivedData_axes_and_writes(1) by blast
  then show ?case using receive.IH by blast
qed

lemma frame_writes_eq:
  "frame_writes sim st =
     (if overrideJoystick st
      then [XPLMSetDataf gRollRatio (axis_value st ''jx''), XPLMSetDataf gPitchRatio (axis_value st ''jy'')]
      else []) @
     (if overridePedals st then [XPLMSetDataf gYawRatio (axis_value st ''px'')] else []) @
     (if overrideCollective st then [XPLMSetDataf gCollectiveRatio (axis_value st ''cy'')] else [])"
  by (simp add: frame_writes_def frame_written SendAxisPosition_written)

lemma ReceiveData_no_float_writes:
  assumes "ReceiveData sim junk st datagram = Inr st'"
  shows "float_writes r (drop (length (written st)) (written st')) = []"
  using ReceiveData_cases [OF assms] ProcessReceivedData_axes_and_writes(2)
  by (metis append_eq_conv_conj drop_all float_writes.simps(1) order_refl)

subsection \<open>The subscription loop of the snapshot\<close>

lemma map_of_assign_other:
  assumes "k \<notin> fst ` set kvs"
  shows "map_of (assign kvs m) k = map_of m k"
proof -
  have "map_of (rev kvs) k = None" using assms by (simp add: map_of_eq_None_iff)
  then show ?thesis by (simp add: map_of_assign map_add_def)
qed

lemma collect_sub_own_key:
  "type sub \<in> {''int'', ''float'', ''double''} \<Longrightarrow>
   map_of (collect_sub sim td sub) (key sub) = map_of (collect_sub sim [] sub) (key sub) \<and>
   map_of (collect_sub sim [] sub) (key sub) \<noteq> None"
  by (auto simp: collect_sub_def map_of_map_set)

lemma collect_loop_last:
  "type sub \<in> {''int'', ''float'', ''double''} \<Longrightarrow>
   map_of (foldl (collect_sub sim) td (subs @ [sub])) (key sub) =
     map_of (collect_sub sim [] sub) (key sub)"
  using collect_sub_own_key [of sub sim "foldl (collect_sub sim) td subs"] by simp

subsection \<open>The maps stay ordered\<close>

lemma ordered_map_set: "ordered m \<Longrightarrow> ordered (map_set k v m)"
proof (induction m)
  case Nil
  show ?case by (simp add: ordered_def)
next
  case (Cons a m)
  obtain k' v' where a: "a = (k', v')" by (cases a)
  have tail: "ordered m" and low: "\<forall>x \<in> keys m. k' < x"
    using Cons.prems by (auto simp: ordered_def keys_def a)
  show ?case
  proof (cases "k = k'")
    case True
    then show ?thesis using Cons.prems by (simp add: ordered_def a)
  next
    case False
    show ?thesis
    proof (cases "k < k'")
      case True
      then show ?thesis using Cons.prems by (auto simp: ordered_def a)
    next
      case ge: False
      have "k' < k" using False ge by simp
      moreover have "ordered (map_set k v m)" using Cons.IH tail by simp
      ultimately show ?thesis
        using False ge low keys_map_set [of k v m]
        by (auto simp: ordered_def a keys_def)
    qed
  qed
qed

lemma ordered_map_at: "ordered m \<Longrightarrow> ordered (snd (map_at d m k))"
  by (simp add: map_at_def ordered_map_set split: option.splits)

lemma ordered_assign: "ordered m \<Longrightarrow> ordered (assign kvs m)"
  unfolding assign_def by (induction kvs arbitrary: m) (simp_all add: ordered_map_set)

lemma ordered_collect_loop: "ordered td \<Longrightarrow> ordered (foldl (collect_sub sim) td subs)"
  by (induction subs arbitrary: td) (simp_all add: collect_sub_def ordered_map_set)

lemma ordered_axis_loop:
  "ordered m \<Longrightarrow> axis_loop sim iss token m = Inr m' \<Longrightarrow> ordered m'"
proof (induction sim iss token m rule: axis_loop.induct)
  case (1 sim iss token m)
  let ?r = "getline iss token CHR '',''"
  show ?case
  proof (cases "fst ?r")
    case False
    then show ?thesis using "1.prems" by (simp add: axis_loop.simps [of sim iss token m])
  next
    case True
    then obtain m1 where m1: "axis_pair sim (fst (snd ?r)) m = Inr m1"
      and rest: "axis_loop sim (snd (snd ?r)) (fst (snd ?r)) m1 = Inr m'"
      using "1.prems" by (auto simp: axis_loop.simps [of sim iss token m] Let_def split: sum.splits)
    have "ordered m1"
      using m1 "1.prems"(1)
      by (auto simp: axis_pair_request ordered_map_set split: option.splits sum.splits)
    then show ?thesis using "1.IH" [OF refl True m1 _ rest] by simp
  qed
qed

lemma frame_maps_ordered:
  assumes "ordered (telemetryData st)" and "ordered (axisDataMap st)"
  shows "ordered (telemetryData (MyFlightLoopCallback sim st))"
    and "ordered (axisDataMap (MyFlightLoopCallback sim st))"
proof -
  have "ordered (telemetryData (CollectTelemetryData sim st'))" if "ordered (telemetryData st')" for st'
    using that
    by (simp add: CollectTelemetryData_def Let_def GetACDetails_def ordered_assign ordered_collect_loop)
  then show "ordered (telemetryData (MyFlightLoopCallback sim st))"
    using assms(1) by (simp add: frame_snapshot SendAxisPosition_fields)
  have "ordered (axisDataMap (SendAxisPosition st))"
    using assms(2)
    by (simp add: SendAxisPosition_def Let_def split_beta ordered_map_at)
  then show "ordered (axisDataMap (MyFlightLoopCallback sim st))"
    by (simp add: MyFlightLoopCallback_def Let_def CollectTelemetryData_fields
          FormatAndSendTelemetryData_fields)
qed

lemma received_maps_ordered:
  assumes "ordered (telemetryData st)" and "ordered (axisDataMap st)"
    and "ProcessReceivedData sim junk st dataType payload = Inr st'"
  shows "ordered (telemetryData st') \<and> ordered (axisDataMap st')"
proof -
  consider (axis) "dataType = ''AXIS''" | (override) "dataType = ''OVERRIDE''"
    | (subscribe) "dataType = ''SUBSCRIBE''"
    | (unknown) "dataType \<noteq> ''AXIS''" "dataType \<noteq> ''OVERRIDE''" "dataType \<noteq> ''SUBSCRIBE''"
    by blast
  then show ?thesis
  proof cases
    case axis
    then obtain m where "axis_loop sim (istringstream payload) '''' (axisDataMap st) = Inr m"
      and "st' = st\<lparr>axisDataMap := m\<rparr>"
      using assms(3) by (auto simp: ProcessReceivedData_AXIS split: sum.splits)
    then show ?thesis using assms(1,2) ordered_axis_loop by auto
  next
    case override
    then show ?thesis
      using assms by (auto simp: ProcessReceivedData_def Let_def split: if_splits)
  next
    case subscribe
    then show ?thesis
      using assms
      by (auto simp: ProcessReceivedData_SUBSCRIBE RegisterDataRef_fields split: sum.splits if_splits)
  next
    case unknown
    then show ?thesis using assms by (simp add: ProcessReceivedData_def)
  qed
qed

lemma reachable_maps_ordered:
  "reachable st \<Longrightarrow> ordered (telemetryData st) \<and> ordered (axisDataMap st)"
proof (induction rule: reachable.induct)
  case (start sim)
  show ?case by (simp add: XPluginStart_def ordered_def)
next
  case (frame st sim)
  then show ?case using frame_maps_ordered by blast
next
  case (receive st sim junk datagram st')
  from ReceiveData_cases [OF receive.hyps(2)] receive.IH
  show ?case using received_maps_ordered by blast
qed

lemma tokens_example: "axis_tokens ''jx=0.5,,foo,jy=abc,'' = [''jx=0.5'', '''', ''foo'', ''jy=abc'']"
  by code_simp

subsection \<open>When decoding raises\<close>

lemma ReceiveData_small:
  "0 < length datagram \<Longrightarrow> length datagram < 1024 \<Longrightarrow>
   ReceiveData sim junk st datagram =
     (let iss = istringstream (takeWhile (\<lambda>c. c \<noteq> CHR 0x00) datagram);
          r1 = getline iss '''' CHR '':'';
          r2 = getline (snd (snd r1)) '''' CHR 0x0A
      in case ProcessReceivedData sim junk st (fst (snd r1)) (fst (snd r2)) of
           Inl e \<Rightarrow> Inl (uncaught e)
         | Inr st' \<Rightarrow> Inr st')"
  by (simp add: ReceiveData_def)

lemma OVERRIDE_returns: "\<exists>st'. ProcessReceivedData sim junk st ''OVERRIDE'' payload = Inr st'"
  by (simp add: ProcessReceivedData_def Let_def)

lemma subscribe_raises_iff:
  "(\<exists>e. ProcessReceivedData sim junk st ''SUBSCRIBE'' payload = Inl e) \<longleftrightarrow>
     (map_has (subscribe_fields payload) ''precision'' \<and>
      isl (stoi (subscribe_field payload ''precision''))) \<or>
     (map_has (subscribe_fields payload) ''conversion'' \<and>
      isl (stof sim (subscribe_field payload ''conversion'')))"
  by (auto simp: ProcessReceivedData_SUBSCRIBE isl_def split: sum.splits if_splits)

lemma axis_raises_iff:
  "(\<exists>e. ProcessReceivedData sim junk st ''AXIS'' payload = Inl e) \<longleftrightarrow> axis_rejected sim payload"
proof
  assume "\<exists>e. ProcessReceivedData sim junk st ''AXIS'' payload = Inl e"
  then show "axis_rejected sim payload" by (auto dest: axis_command_raises)
next
  assume rej: "axis_rejected sim payload"
  show "\<exists>e. ProcessReceivedData sim junk st ''AXIS'' payload = Inl e"
  proof (cases "ProcessReceivedData sim junk st ''AXIS'' payload")
    case (Inl e)
    then show ?thesis by blast
  next
    case (Inr st')
    then show ?thesis using axis_command_returns(2) [OF Inr] rej by blast
  qed
qed

section \<open>Properties\<close>

subsection \<open>A datagram without a colon\<close>

text \<open>
  C9. For the malformed inbound datagram \<^verbatim>\<open>GARBAGE\<close>, which has no colon, \<open>ReceiveData\<close>
  returns without a fault and the whole state is as before: the axis map, the three override
  flags and the list of subscriptions are unchanged. This holds in every state, for every
  simulator.
\<close>

theorem garbage_datagram_no_change:
  "ReceiveData sim junk st ''GARBAGE'' = Inr st"
  by (simp add: ReceiveData_def ProcessReceivedData_def getline_def istringstream_def)

theorem garbage_datagram_no_change_witness:
  "ReceiveData demo_sim False (XPluginStart demo_sim) ''GARBAGE'' = Inr (XPluginStart demo_sim)"
  by (rule garbage_datagram_no_change)

subsection \<open>Array formatting\<close>

text \<open>
  C2. With a fixed size of 3 and precision 3 the values 0, 0, 5 are formatted as
  \<^verbatim>\<open>0.000~0.000~5.000\<close>. Without a fixed size the values 5, 0, 0 should come out as
  \<^verbatim>\<open>5.000\<close>; the function returns \<^verbatim>\<open>5\<close>, because \<^verbatim>\<open>find_last_not_of("~0.000")\<close> strips
  every trailing character that is \<^verbatim>\<open>~\<close>, \<^verbatim>\<open>0\<close> or a point, and so eats into the last value
  that is not zero. The statement evaluates the function on that input.
\<close>

theorem trailing_zero_trim_eats_digits:
  "FloatArrayToString (array_sim [5, 0, 0]) gGear 1 (- 1) 3 = ''5''"
  by code_simp

lemma fixed_size_keeps_zeros:
  "FloatArrayToString (array_sim [0, 0, 5]) gGear 1 3 3 = ''0.000~0.000~5.000''"
  by code_simp

lemma trailing_zero_trim_changes_value:
  "FloatArrayToString (array_sim [10, 0]) gGear 1 (- 1) 3 = ''1''"
  by code_simp

subsection \<open>The gear count\<close>

text \<open>
  C3. The gear count should be the highest index of the 10-entry coordinate tables at which
  X, Y or Z is not zero. \<open>GetNumGear\<close> instead takes, over all indices, the largest number
  of coordinates that are not zero at one index, which is never more than 3. For a table
  with five legs, whose highest occupied index is 4, it returns 3.
\<close>

theorem five_gear_count:
  "GetNumGear five_gear_sim = 3 \<and> highest_nonzero_index five_gear_sim = Some 4"
  by code_simp

lemma GetNumGear_at_most_3: "0 \<le> GetNumGear sim \<and> GetNumGear sim \<le> 3"
proof -
  have c: "0 \<le> count_if P (take 1 xs) \<and> count_if P (take 1 xs) \<le> 1" for P :: "float \<Rightarrow> bool" and xs
    by (cases xs) (simp_all add: count_if_def)
  have n: "0 \<le> nonZeroCount xs ys zs i \<and> nonZeroCount xs ys zs i \<le> 3" for xs ys zs i
    using c [of "\<lambda>v. v \<noteq> 0" "drop i xs"] c [of "\<lambda>v. v \<noteq> 0" "drop i ys"]
      c [of "\<lambda>v. v \<noteq> 0" "drop i zs"]
    by (simp add: nonZeroCount_def)
  have f: "0 \<le> a \<Longrightarrow> a \<le> 3 \<Longrightarrow>
      0 \<le> foldl (\<lambda>maxNonZero i. max maxNonZero (nonZeroCount xs ys zs i)) a is \<and>
      foldl (\<lambda>maxNonZero i. max maxNonZero (nonZeroCount xs ys zs i)) a is \<le> 3"
    for a :: int and xs ys zs "is"
  proof (induction "is" arbitrary: a)
    case Nil
    then show ?case by simp
  next
    case (Cons i "is")
    show ?case
      using Cons.IH [of "max a (nonZeroCount xs ys zs i)"] Cons.prems n [of xs ys zs i]
      by (simp add: max_def)
  qed
  show ?thesis
    unfolding GetNumGear_def Let_def by (rule f) simp_all
qed

subsection \<open>Snapshot completeness\<close>

text \<open>
  C8, as first stated: after every frame tick every key of the subscription list is in the
  snapshot. This fails for a subscription whose type is none of \<^verbatim>\<open>int\<close>, \<^verbatim>\<open>float\<close>,
  \<^verbatim>\<open>double\<close>: the loop only logs it. Here \<^verbatim>\<open>Foo\<close> is subscribed with type \<^verbatim>\<open>bool\<close> and is
  not in the snapshot after the tick.
\<close>

theorem unsupported_type_key_not_in_snapshot:
  "map_of (telemetryData (MyFlightLoopCallback demo_sim
      (RegisterDataRef demo_sim ''sim/x'' ''Foo'' ''bool'' 3 (Finite 1) (XPluginStart demo_sim)))) ''Foo'' = None"
  by code_simp

text \<open>
  C8, amended. After every frame tick, the key of every subscription whose type is
  \<^verbatim>\<open>int\<close>, \<^verbatim>\<open>float\<close> or \<^verbatim>\<open>double\<close> is in the snapshot, and the built-in keys are in the
  snapshot whatever is subscribed.
\<close>

theorem snapshot_has_supported_and_builtin_keys:
  "(\<forall>sub \<in> set (subscribedDataRefs st).
      type sub \<in> {''int'', ''float'', ''double''} \<longrightarrow>
      key sub \<in> keys (telemetryData (MyFlightLoopCallback sim st))) \<and>
   set builtin_keys \<subseteq> keys (telemetryData (MyFlightLoopCallback sim st))"
proof -
  obtain st' td where snap:
    "telemetryData (MyFlightLoopCallback sim st) =
       assign (builtin_fields sim st') (foldl (collect_sub sim) td (subscribedDataRefs st))"
    using CollectTelemetryData_snapshot [of sim "SendAxisPosition st"]
    by (auto simp: frame_snapshot SendAxisPosition_fields)
  have "set builtin_keys \<subseteq> keys (telemetryData (MyFlightLoopCallback sim st))"
    unfolding snap keys_assign using builtin_fields_keys [of sim st']
    by (metis Un_upper2 set_map)
  moreover have "key sub \<in> keys (telemetryData (MyFlightLoopCallback sim st))"
    if "sub \<in> set (subscribedDataRefs st)" "type sub \<in> {''int'', ''float'', ''double''}" for sub
    unfolding snap keys_assign using key_collect_loop [OF that] by simp
  ultimately show ?thesis by blast
qed

theorem snapshot_has_supported_and_builtin_keys_witness:
  "type \<lparr>dataRef = ''sim/x'', key = ''Foo'', type = ''float'', precision = 2, conversionFactor = Finite 2\<rparr>
     \<in> {''int'', ''float'', ''double''} \<and>
   ''Foo'' \<in> keys (telemetryData (MyFlightLoopCallback demo_sim
      (RegisterDataRef demo_sim ''sim/x'' ''Foo'' ''float'' 2 (Finite 2) (XPluginStart demo_sim)))) \<and>
   ''src'' \<in> keys (telemetryData (MyFlightLoopCallback demo_sim
      (RegisterDataRef demo_sim ''sim/x'' ''Foo'' ''float'' 2 (Finite 2) (XPluginStart demo_sim))))"
  using snapshot_has_supported_and_builtin_keys
    [of "RegisterDataRef demo_sim ''sim/x'' ''Foo'' ''float'' 2 (Finite 2) (XPluginStart demo_sim)" demo_sim]
  by (simp add: RegisterDataRef_def XPLMFindDataRef_def demo_sim_def XPluginStart_def
        builtin_keys_def)

subsection \<open>One datagram per frame\<close>

text \<open>
  C4, as first stated: every frame tick sends exactly one datagram. The callback sends only
  if the simulator is not paused; on a tick where the pause flag reads 1 nothing is sent.
\<close>

theorem paused_frame_sends_nothing:
  "sent (MyFlightLoopCallback paused_sim (XPluginStart paused_sim)) = []"
  by code_simp

text \<open>
  C4, amended. On a frame tick where the simulator's pause flag does not read 1, exactly one
  datagram is sent, and its content is \<^verbatim>\<open>key=value;\<close> for every entry of that frame's
  snapshot; on a tick where the flag reads 1 no datagram is sent. In every reachable state
  the snapshot has one entry per key, in increasing key order.
\<close>

theorem one_datagram_per_unpaused_frame:
  "sent (MyFlightLoopCallback sim st) =
     (if XPLMGetDatai sim gPaused = 1 then sent st
      else sent st @ [encode (telemetryData (MyFlightLoopCallback sim st))]) \<and>
   (reachable st \<longrightarrow> ordered (telemetryData (MyFlightLoopCallback sim st)))"
proof -
  have "ordered (telemetryData (MyFlightLoopCallback sim st))" if "reachable st"
    using reachable_maps_ordered [OF reachable.frame [OF that, of sim]] by simp
  then show ?thesis
    by (simp add: MyFlightLoopCallback_def Let_def CollectTelemetryData_fields
          FormatAndSendTelemetryData_fields SendAxisPosition_fields)
qed

theorem one_datagram_per_unpaused_frame_witness:
  "XPLMGetDatai demo_sim gPaused \<noteq> 1 \<and> reachable (XPluginStart demo_sim) \<and>
   sent (MyFlightLoopCallback demo_sim (XPluginStart demo_sim)) =
     [encode (telemetryData (MyFlightLoopCallback demo_sim (XPluginStart demo_sim)))] \<and>
   ordered (telemetryData (MyFlightLoopCallback demo_sim (XPluginStart demo_sim)))"
proof -
  have h: "reachable (XPluginStart demo_sim)"
    by (rule reachable.start)
  have p: "XPLMGetDatai demo_sim gPaused \<noteq> 1" "sent (XPluginStart demo_sim) = []"
    by (simp_all add: demo_sim_def gPaused_def XPluginStart_def)
  show ?thesis
    using h p one_datagram_per_unpaused_frame [of demo_sim "XPluginStart demo_sim"]
    by simp
qed

subsection \<open>Registering a key twice\<close>

text \<open>
  C7, as first stated: after registering the same key twice, a lookup of the key returns the
  second registration only. The registry is a vector and \<open>RegisterDataRef\<close> appends to it,
  so both registrations stay in it; the snapshot is where a key is looked up. Here \<^verbatim>\<open>K\<close>
  is registered for \<^verbatim>\<open>sim/a\<close> as \<^verbatim>\<open>int\<close> and then for \<^verbatim>\<open>sim/b\<close> as \<^verbatim>\<open>bool\<close>: the list
  holds both, and the snapshot shows 7, the value behind the first.
\<close>

theorem second_registration_of_unsupported_type:
  "map (\<lambda>sub. (dataRef sub, key sub, type sub))
     (subscribedDataRefs
       (RegisterDataRef demo_sim ''sim/b'' ''K'' ''bool'' 3 (Finite 1)
         (RegisterDataRef demo_sim ''sim/a'' ''K'' ''int'' 3 (Finite 1) (XPluginStart demo_sim)))) =
     [(''sim/a'', ''K'', ''int''), (''sim/b'', ''K'', ''bool'')] \<and>
   map_of (telemetryData (MyFlightLoopCallback demo_sim
     (RegisterDataRef demo_sim ''sim/b'' ''K'' ''bool'' 3 (Finite 1)
       (RegisterDataRef demo_sim ''sim/a'' ''K'' ''int'' 3 (Finite 1) (XPluginStart demo_sim))))) ''K'' =
   Some ''7''"
  by code_simp

text \<open>
  C7, amended. Registering the same key twice with paths that resolve appends both
  registrations to the list, in that order. If the type of the second is \<^verbatim>\<open>int\<close>,
  \<^verbatim>\<open>float\<close> or \<^verbatim>\<open>double\<close> and the key is not a built-in key, the snapshot of the next frame
  has under that key exactly the entry that the second registration alone produces.
\<close>

theorem second_registration_shows_in_snapshot:
  assumes "resolves sim path1" and "resolves sim path2"
    and "t2 \<in> {''int'', ''float'', ''double''}" and "k \<notin> set builtin_keys"
  shows "subscribedDataRefs
           (RegisterDataRef sim path2 k t2 p2 c2 (RegisterDataRef sim path1 k t1 p1 c1 st)) =
         subscribedDataRefs st @
           [\<lparr>dataRef = path1, key = k, type = t1, precision = p1, conversionFactor = c1\<rparr>,
            \<lparr>dataRef = path2, key = k, type = t2, precision = p2, conversionFactor = c2\<rparr>] \<and>
         map_of (telemetryData (MyFlightLoopCallback sim'
           (RegisterDataRef sim path2 k t2 p2 c2 (RegisterDataRef sim path1 k t1 p1 c1 st)))) k =
         map_of (collect_sub sim' []
           \<lparr>dataRef = path2, key = k, type = t2, precision = p2, conversionFactor = c2\<rparr>) k \<and>
         map_of (telemetryData (MyFlightLoopCallback sim'
           (RegisterDataRef sim path2 k t2 p2 c2 (RegisterDataRef sim path1 k t1 p1 c1 st)))) k \<noteq> None"
proof -
  let ?sub1 = "\<lparr>dataRef = path1, key = k, type = t1, precision = p1, conversionFactor = c1\<rparr>"
  let ?sub2 = "\<lparr>dataRef = path2, key = k, type = t2, precision = p2, conversionFactor = c2\<rparr>"
  let ?st2 = "RegisterDataRef sim path2 k t2 p2 c2 (RegisterDataRef sim path1 k t1 p1 c1 st)"
  have subs: "subscribedDataRefs ?st2 = subscribedDataRefs st @ [?sub1, ?sub2]"
    using assms(1,2) by (simp add: RegisterDataRef_def XPLMFindDataRef_def)
  obtain st' td where snap:
    "telemetryData (MyFlightLoopCallback sim' ?st2) =
       assign (builtin_fields sim' st') (foldl (collect_sub sim') td (subscribedDataRefs ?st2))"
    using CollectTelemetryData_snapshot [of sim' "SendAxisPosition ?st2"]
    by (auto simp: frame_snapshot SendAxisPosition_fields)
  have "k \<notin> fst ` set (builtin_fields sim' st')"
    using assms(4) builtin_fields_keys [of sim' st'] by (metis set_map)
  then have "map_of (telemetryData (MyFlightLoopCallback sim' ?st2)) k =
      map_of (foldl (collect_sub sim') td ((subscribedDataRefs st @ [?sub1]) @ [?sub2])) k"
    unfolding snap subs by (simp add: map_of_assign_other)
  also have "\<dots> = map_of (collect_sub sim' [] ?sub2) k"
    using collect_loop_last [of ?sub2 sim' td "subscribedDataRefs st @ [?sub1]"] assms(3)
    by simp
  finally have snapk: "map_of (telemetryData (MyFlightLoopCallback sim' ?st2)) k =
      map_of (collect_sub sim' [] ?sub2) k" .
  moreover have "map_of (collect_sub sim' [] ?sub2) k \<noteq> None"
    using collect_sub_own_key [of ?sub2 sim' "[]"] assms(3) by simp
  ultimately show ?thesis using subs by simp
qed

theorem second_registration_shows_in_snapshot_witness:
  "resolves demo_sim ''sim/a'' \<and> resolves demo_sim ''sim/b'' \<and>
   ''int'' \<in> {''int'', ''float'', ''double''} \<and> ''K'' \<notin> set builtin_keys \<and>
   map_of (telemetryData (MyFlightLoopCallback demo_sim
     (RegisterDataRef demo_sim ''sim/b'' ''K'' ''int'' 3 (Finite 1)
       (RegisterDataRef demo_sim ''sim/a'' ''K'' ''float'' 2 (Finite 2) (XPluginStart demo_sim))))) ''K'' =
   Some ''9''"
proof -
  have h: "resolves demo_sim ''sim/a''" "resolves demo_sim ''sim/b''"
    "''int'' \<in> {''int'', ''float'', ''double''}" "''K'' \<notin> set builtin_keys"
    by (simp_all add: demo_sim_def builtin_keys_def)
  have "map_of (collect_sub demo_sim []
      \<lparr>dataRef = ''sim/b'', key = ''K'', type = ''int'', precision = 3, conversionFactor = Finite 1\<rparr>) ''K'' =
      Some ''9''"
    by code_simp
  then show ?thesis
    using h second_registration_shows_in_snapshot
      [OF h, where ?p2.0 = 3 and ?c2.0 = "Finite 1" and ?t1.0 = "''float''" and ?p1.0 = 2
         and ?c1.0 = "Finite 2" and st = "XPluginStart demo_sim" and sim' = demo_sim]
    by simp
qed

subsection \<open>Override, axis command, frame\<close>

text \<open>
  C6. In any state, receiving \<^verbatim>\<open>OVERRIDE:joystick=true\<close> and then
  \<^verbatim>\<open>AXIS:jx=0.5,jy=-0.2\<close> returns without a fault both times and leaves the joystick
  group overridden, with the floats that \<^verbatim>\<open>std::stof\<close> reads from \<^verbatim>\<open>0.5\<close> and \<^verbatim>\<open>-0.2\<close>
  under \<^verbatim>\<open>jx\<close> and \<^verbatim>\<open>jy\<close> in the axis map and the other entries of the map as they were.
  These floats are 0.5 and the binary32 number nearest to -0.2, which is
  \<open>- 13421773 / 2 ^ 26\<close> and less than \<open>1 / 2 ^ 28\<close> away from -0.2. The frame callback that
  follows writes to the roll channel exactly once, the first float, and to the pitch
  channel exactly once, the second. The answers of the simulator and of the runtime and
  the indeterminate boolean may differ from call to call.
\<close>

theorem override_then_axis_then_frame:
  "let st1 = st\<lparr>written := written st @ [XPLMSetDatai gRollOvd 1, XPLMSetDatai gPitchOvd 1],
                 overrideJoystick := True\<rparr>;
       st2 = st1\<lparr>axisDataMap :=
               map_set ''jy'' (Finite (- (13421773 / 67108864)))
                 (map_set ''jx'' (Finite (1 / 2)) (axisDataMap st))\<rparr>
   in ReceiveData sim1 junk1 st ''OVERRIDE:joystick=true'' = Inr st1 \<and>
      ReceiveData sim2 junk2 st1 ''AXIS:jx=0.5,jy=-0.2'' = Inr st2 \<and>
      overrideJoystick st2 \<and>
      map_of (axisDataMap st2) =
        (map_of (axisDataMap st))(''jx'' \<mapsto> Finite (1 / 2),
                                  ''jy'' \<mapsto> Finite (- (13421773 / 67108864))) \<and>
      axis_value st2 ''jx'' = Finite (1 / 2) \<and>
      axis_value st2 ''jy'' = Finite (- (13421773 / 67108864)) \<and>
      float_writes gRollRatio (frame_writes sim3 st2) = [Finite (1 / 2)] \<and>
      float_writes gPitchRatio (frame_writes sim3 st2) = [Finite (- (13421773 / 67108864))] \<and>
      stof sim2 ''0.5'' = Inr (Finite (1 / 2)) \<and>
      stof sim2 ''-0.2'' = Inr (Finite (- (13421773 / 67108864))) \<and>
      \<bar>- (13421773 / 67108864) - (- (1 / 5) :: float)\<bar> < 1 / 2 ^ 28"
proof -
  define st1 where "st1 = st\<lparr>written := written st @ [XPLMSetDatai gRollOvd 1, XPLMSetDatai gPitchOvd 1],
                 overrideJoystick := True\<rparr>"
  define st2 where "st2 = st1\<lparr>axisDataMap :=
               map_set ''jy'' (Finite (- (13421773 / 67108864)))
                 (map_set ''jx'' (Finite (1 / 2)) (axisDataMap st))\<rparr>"
  have r1: "ReceiveData sim1 junk1 st ''OVERRIDE:joystick=true'' = Inr st1"
    by (simp add: ReceiveData_small Let_def getline_def istringstream_def override_joystick_true st1_def)
  have "ProcessReceivedData sim2 junk2 st1 ''AXIS'' ''jx=0.5,jy=-0.2'' = Inr st2"
    by (simp add: ProcessReceivedData_AXIS axis_jx_jy st1_def st2_def)
  then have r2: "ReceiveData sim2 junk2 st1 ''AXIS:jx=0.5,jy=-0.2'' = Inr st2"
    by (simp add: ReceiveData_small Let_def getline_def istringstream_def)
  have o: "overrideJoystick st2" by (simp add: st2_def st1_def)
  have m: "map_of (axisDataMap st2) =
        (map_of (axisDataMap st))(''jx'' \<mapsto> Finite (1 / 2),
                                  ''jy'' \<mapsto> Finite (- (13421773 / 67108864)))"
    by (simp add: st2_def map_of_map_set)
  have jx: "axis_value st2 ''jx'' = Finite (1 / 2)"
    and jy: "axis_value st2 ''jy'' = Finite (- (13421773 / 67108864))"
    by (simp_all add: axis_value_def map_at_value m)
  have w1: "float_writes gRollRatio (frame_writes sim3 st2) = [Finite (1 / 2)]"
    using o jx by (simp add: frame_writes_eq dataref_defs)
  have w2: "float_writes gPitchRatio (frame_writes sim3 st2) = [Finite (- (13421773 / 67108864))]"
    using o jy by (simp add: frame_writes_eq dataref_defs)
  have s1: "stof sim2 ''0.5'' = Inr (Finite (1 / 2))"
    by (rule stof_half)
  have s2: "stof sim2 ''-0.2'' = Inr (Finite (- (13421773 / 67108864)))"
    by (rule stof_minus_fifth)
  have d: "\<bar>- (13421773 / 67108864) - (- (1 / 5) :: float)\<bar> < 1 / 2 ^ 28"
    by simp
  show ?thesis
    unfolding Let_def st1_def [symmetric] st2_def [symmetric]
    using r1 r2 o m jx jy w1 w2 s1 s2 d by blast
qed

theorem override_then_axis_then_frame_witness:
  "let st1 = (XPluginStart demo_sim)\<lparr>written := [XPLMSetDatai gRollOvd 1, XPLMSetDatai gPitchOvd 1],
                 overrideJoystick := True\<rparr>;
       st2 = st1\<lparr>axisDataMap :=
               [(''cy'', Finite 0), (''jx'', Finite (1 / 2)),
                (''jy'', Finite (- (13421773 / 67108864))), (''px'', Finite 0)]\<rparr>
   in ReceiveData demo_sim False (XPluginStart demo_sim) ''OVERRIDE:joystick=true'' = Inr st1 \<and>
      ReceiveData demo_sim False st1 ''AXIS:jx=0.5,jy=-0.2'' = Inr st2 \<and>
      float_writes gRollRatio (frame_writes demo_sim st2) = [Finite (1 / 2)] \<and>
      float_writes gPitchRatio (frame_writes demo_sim st2) = [Finite (- (13421773 / 67108864))] \<and>
      frame_writes demo_sim st2 =
        [XPLMSetDataf gRollRatio (Finite (1 / 2)),
         XPLMSetDataf gPitchRatio (Finite (- (13421773 / 67108864)))]"
proof -
  have m: "map_set ''jy'' (Finite (- (13421773 / 67108864)))
             (map_set ''jx'' (Finite (1 / 2)) (axisDataMap (XPluginStart demo_sim))) =
      [(''cy'', Finite 0), (''jx'', Finite (1 / 2)),
       (''jy'', Finite (- (13421773 / 67108864))), (''px'', Finite 0)]"
    by code_simp
  have w: "written (XPluginStart demo_sim) = []"
    "overridePedals (XPluginStart demo_sim) = False"
    "overrideCollective (XPluginStart demo_sim) = False"
    by (simp_all add: XPluginStart_def)
  let ?st1 = "(XPluginStart demo_sim)\<lparr>written := [XPLMSetDatai gRollOvd 1, XPLMSetDatai gPitchOvd 1],
                 overrideJoystick := True\<rparr>"
  let ?st2 = "?st1\<lparr>axisDataMap :=
               [(''cy'', Finite 0), (''jx'', Finite (1 / 2)),
                (''jy'', Finite (- (13421773 / 67108864))), (''px'', Finite 0)]\<rparr>"
  have inst: "ReceiveData demo_sim False (XPluginStart demo_sim) ''OVERRIDE:joystick=true'' = Inr ?st1 \<and>
      ReceiveData demo_sim False ?st1 ''AXIS:jx=0.5,jy=-0.2'' = Inr ?st2 \<and>
      float_writes gRollRatio (frame_writes demo_sim ?st2) = [Finite (1 / 2)] \<and>
      float_writes gPitchRatio (frame_writes demo_sim ?st2) = [Finite (- (13421773 / 67108864))]"
    using override_then_axis_then_frame [of "XPluginStart demo_sim" demo_sim False demo_sim False demo_sim]
    by (simp add: Let_def m w)
  have fw: "frame_writes demo_sim ?st2 =
      [XPLMSetDataf gRollRatio (Finite (1 / 2)),
       XPLMSetDataf gPitchRatio (Finite (- (13421773 / 67108864)))]"
    by (simp add: frame_writes_eq w axis_value_def map_at_value)
  show ?thesis
    unfolding Let_def using inst fw by blast
qed

subsection \<open>Axis keys and write-through\<close>

text \<open>
  C10, as first stated: every pair of an \<^verbatim>\<open>AXIS\<close> command whose value parses as a float
  updates the axis map at its key, canonical or not. The loop ends at the first pair that
  \<^verbatim>\<open>std::stof\<close> rejects, with an exception that nothing catches, so the pairs behind it are
  never reached: here the value of \<^verbatim>\<open>zz=1\<close> parses, and the datagram ends in
  \<^verbatim>\<open>std::invalid_argument\<close> at \<^verbatim>\<open>jy=abc\<close> before \<^verbatim>\<open>zz\<close> is stored.
\<close>

theorem pair_behind_rejected_pair_not_stored:
  "axis_tokens ''jy=abc,zz=1'' = [''jy=abc'', ''zz=1''] \<and>
   token_update demo_sim ''zz=1'' = Some (''zz'', Finite 1) \<and>
   axis_loop demo_sim (istringstream ''jy=abc,zz=1'') '''' (axisDataMap (XPluginStart demo_sim)) =
     Inl invalid_argument \<and>
   ReceiveData demo_sim False (XPluginStart demo_sim) ''AXIS:jy=abc,zz=1'' =
     Inl (uncaught invalid_argument)"
  by code_simp

text \<open>
  C10, amended. The body of the \<^verbatim>\<open>AXIS\<close> loop stores the value of every pair that \<^verbatim>\<open>std::stof\<close>
  accepts under the pair's key, whatever the key is, so a key other than \<^verbatim>\<open>jx\<close>,
  \<^verbatim>\<open>jy\<close>, \<^verbatim>\<open>px\<close>, \<^verbatim>\<open>cy\<close> becomes a new entry. The command returns exactly when
  \<^verbatim>\<open>std::stof\<close> rejects no pair of its payload, and then the map is the old one overridden
  by all pairs of the payload, later pairs over earlier ones. The four canonical keys
  are in the map at start-up with value 0 and in every reachable state. The writes of a
  frame callback are the values under \<^verbatim>\<open>jx\<close> and \<^verbatim>\<open>jy\<close>, under \<^verbatim>\<open>px\<close> and under
  \<^verbatim>\<open>cy\<close>, each for an overridden group and nothing else, and a received datagram writes
  no float to the simulator at all.
\<close>

theorem axis_keys_and_write_through:
  "(axis_request sim token = Some (k, Inr v) \<longrightarrow>
      axis_pair sim token m = Inr (map_set k v m) \<and> map_of (map_set k v m) = (map_of m)(k \<mapsto> v)) \<and>
   ((\<exists>st'. ProcessReceivedData sim junk st ''AXIS'' payload = Inr st') \<longleftrightarrow>
      \<not> axis_rejected sim payload) \<and>
   (ProcessReceivedData sim junk st ''AXIS'' payload = Inr st' \<longrightarrow>
      map_of (axisDataMap st') = map_of (axisDataMap st) ++ map_of (rev (axis_updates sim payload))) \<and>
   axisDataMap (XPluginStart sim) =
     [(''cy'', Finite 0), (''jx'', Finite 0), (''jy'', Finite 0), (''px'', Finite 0)] \<and>
   (reachable st \<longrightarrow> set canonical_axes \<subseteq> keys (axisDataMap st)) \<and>
   frame_writes sim st =
     (if overrideJoystick st
      then [XPLMSetDataf gRollRatio (axis_value st ''jx''), XPLMSetDataf gPitchRatio (axis_value st ''jy'')]
      else []) @
     (if overridePedals st then [XPLMSetDataf gYawRatio (axis_value st ''px'')] else []) @
     (if overrideCollective st then [XPLMSetDataf gCollectiveRatio (axis_value st ''cy'')] else []) \<and>
   (ReceiveData sim junk st datagram = Inr st'' \<longrightarrow>
      float_writes r (drop (length (written st)) (written st'')) = [])"
proof -
  have "axis_pair sim token m = Inr (map_set k v m)" if "axis_request sim token = Some (k, Inr v)"
    using that by (simp add: axis_pair_request)
  moreover have "(\<exists>st'. ProcessReceivedData sim junk st ''AXIS'' payload = Inr st') \<longleftrightarrow>
      \<not> axis_rejected sim payload"
  proof (cases "ProcessReceivedData sim junk st ''AXIS'' payload")
    case (Inl e)
    then show ?thesis using axis_raises_iff [of sim junk st payload] by auto
  next
    case (Inr s)
    then show ?thesis using axis_raises_iff [of sim junk st payload] by auto
  qed
  moreover have "map_of (axisDataMap st') = map_of (axisDataMap st) ++ map_of (rev (axis_updates sim payload))"
    if "ProcessReceivedData sim junk st ''AXIS'' payload = Inr st'"
    using axis_command_returns(3) [OF that] .
  moreover have "axisDataMap (XPluginStart sim) =
      [(''cy'', Finite 0), (''jx'', Finite 0), (''jy'', Finite 0), (''px'', Finite 0)]"
    by (simp add: XPluginStart_def)
  moreover have "float_writes r (drop (length (written st)) (written st'')) = []"
    if "ReceiveData sim junk st datagram = Inr st''"
    using ReceiveData_no_float_writes [OF that] .
  ultimately show ?thesis
    using reachable_canonical_axes [of st] frame_writes_eq [of sim st]
    by (simp add: map_of_map_set)
qed

theorem axis_keys_and_write_through_witness:
  "axis_request demo_sim ''flaps=1.5'' = Some (''flaps'', Inr (Finite (3 / 2))) \<and>
   \<not> axis_rejected demo_sim ''flaps=1.5'' \<and>
   ProcessReceivedData demo_sim False (XPluginStart demo_sim) ''AXIS'' ''flaps=1.5'' =
     Inr ((XPluginStart demo_sim)
       \<lparr>axisDataMap := [(''cy'', Finite 0), (''flaps'', Finite (3 / 2)), (''jx'', Finite 0),
                        (''jy'', Finite 0), (''px'', Finite 0)]\<rparr>) \<and>
   reachable (XPluginStart demo_sim) \<and>
   ReceiveData demo_sim False (XPluginStart demo_sim) ''AXIS:flaps=1.5'' =
     Inr ((XPluginStart demo_sim)
       \<lparr>axisDataMap := [(''cy'', Finite 0), (''flaps'', Finite (3 / 2)), (''jx'', Finite 0),
                        (''jy'', Finite 0), (''px'', Finite 0)]\<rparr>) \<and>
   axis_pair demo_sim ''flaps=1.5'' (axisDataMap (XPluginStart demo_sim)) =
     Inr (map_set ''flaps'' (Finite (3 / 2)) (axisDataMap (XPluginStart demo_sim))) \<and>
   set canonical_axes \<subseteq> keys (axisDataMap (XPluginStart demo_sim)) \<and>
   frame_writes demo_sim (XPluginStart demo_sim) = []"
proof -
  let ?st' = "(XPluginStart demo_sim)
       \<lparr>axisDataMap := [(''cy'', Finite 0), (''flaps'', Finite (3 / 2)), (''jx'', Finite 0),
                        (''jy'', Finite 0), (''px'', Finite 0)]\<rparr>"
  have h1: "axis_request demo_sim ''flaps=1.5'' = Some (''flaps'', Inr (Finite (3 / 2)))"
    by code_simp
  have h2: "ProcessReceivedData demo_sim False (XPluginStart demo_sim) ''AXIS'' ''flaps=1.5'' = Inr ?st'"
    by code_simp
  have h3: "reachable (XPluginStart demo_sim)"
    by (rule reachable.start)
  have h4: "ReceiveData demo_sim False (XPluginStart demo_sim) ''AXIS:flaps=1.5'' = Inr ?st'"
    by code_simp
  have o: "\<not> overrideJoystick (XPluginStart demo_sim)" "\<not> overridePedals (XPluginStart demo_sim)"
    "\<not> overrideCollective (XPluginStart demo_sim)"
    by (simp_all add: XPluginStart_def)
  note inst = axis_keys_and_write_through
      [of demo_sim "''flaps=1.5''" "''flaps''" "Finite (3 / 2)" "axisDataMap (XPluginStart demo_sim)" False
          "XPluginStart demo_sim" "''flaps=1.5''" ?st' "''AXIS:flaps=1.5''" ?st' gRollRatio]
  from inst h1 have c1: "axis_pair demo_sim ''flaps=1.5'' (axisDataMap (XPluginStart demo_sim)) =
     Inr (map_set ''flaps'' (Finite (3 / 2)) (axisDataMap (XPluginStart demo_sim)))"
    by blast
  from inst h2 have c0: "\<not> axis_rejected demo_sim ''flaps=1.5''"
    by blast
  from inst h3 have c2: "set canonical_axes \<subseteq> keys (axisDataMap (XPluginStart demo_sim))"
    by blast
  from inst o have c3: "frame_writes demo_sim (XPluginStart demo_sim) = []"
    by simp
  show ?thesis
    using h1 h2 h3 h4 c0 c1 c2 c3 by blast
qed

subsection \<open>Parse failures\<close>

text \<open>
  C1, as first stated: decoding never faults, an \<^verbatim>\<open>AXIS\<close> pair that cannot be parsed is
  skipped on its own, and a malformed \<^verbatim>\<open>SUBSCRIBE\<close> precision is a no-op. The plugin
  catches no exception, so a value that \<^verbatim>\<open>std::stof\<close> rejects ends the processing of the
  datagram with \<^verbatim>\<open>std::invalid_argument\<close>: here the pair \<^verbatim>\<open>jy=abc\<close> is not skipped and
  \<^verbatim>\<open>px=1\<close> is never reached.
\<close>

theorem unparsable_axis_value_raises:
  "ReceiveData demo_sim False (XPluginStart demo_sim) ''AXIS:jx=0.5,jy=abc,px=1'' =
     Inl (uncaught invalid_argument)"
  by code_simp

lemma malformed_precision_raises:
  "ReceiveData demo_sim False (XPluginStart demo_sim)
     ''SUBSCRIBE:dataref=sim/x,type=float,tag=Foo,precision=two'' = Inl (uncaught invalid_argument)"
  by code_simp

text \<open>
  Outside the plain decimals the runtime decides. With the runtime of \<open>demo_sim\<close> the
  value \<^verbatim>\<open>inf\<close> is accepted and stored as the positive infinity, \<^verbatim>\<open>0x10\<close> is stored as
  16, and \<^verbatim>\<open>1e-50\<close> ends the datagram with \<^verbatim>\<open>std::out_of_range\<close>.
\<close>

lemma axis_values_read_by_the_runtime:
  "ReceiveData demo_sim False (XPluginStart demo_sim) ''AXIS:jx=inf'' =
     Inr ((XPluginStart demo_sim)
       \<lparr>axisDataMap := [(''cy'', Finite 0), (''jx'', Infinity False), (''jy'', Finite 0),
                        (''px'', Finite 0)]\<rparr>)"
  "ReceiveData demo_sim False (XPluginStart demo_sim) ''AXIS:zz=0x10'' =
     Inr ((XPluginStart demo_sim)
       \<lparr>axisDataMap := [(''cy'', Finite 0), (''jx'', Finite 0), (''jy'', Finite 0),
                        (''px'', Finite 0), (''zz'', Finite 16)]\<rparr>)"
  "ReceiveData demo_sim False (XPluginStart demo_sim) ''AXIS:jx=1e-50'' =
     Inl (uncaught out_of_range)"
  by code_simp+

text \<open>
  C1, amended. Decoding a command raises an exception exactly when it is an \<^verbatim>\<open>AXIS\<close>
  command with a pair whose value \<^verbatim>\<open>std::stof\<close> rejects, or a \<^verbatim>\<open>SUBSCRIBE\<close> command whose
  precision field is present and rejected by \<^verbatim>\<open>std::stoi\<close> or whose conversion field is
  present and rejected by \<^verbatim>\<open>std::stof\<close>; every other command returns, whatever its
  bytes. An \<^verbatim>\<open>AXIS\<close> command that returns changes nothing but the axis map, in which
  every pair of the payload has updated the value under its key (later pairs over earlier
  ones); tokens without \<^verbatim>\<open>=\<close> are skipped one by one.
\<close>

theorem decoding_raises_exactly_on_rejected_numbers:
  "((\<exists>e. ProcessReceivedData sim junk st dataType payload = Inl e) \<longleftrightarrow>
      dataType = ''AXIS'' \<and> axis_rejected sim payload \<or>
      dataType = ''SUBSCRIBE'' \<and>
        (map_has (subscribe_fields payload) ''precision'' \<and>
           isl (stoi (subscribe_field payload ''precision'')) \<or>
         map_has (subscribe_fields payload) ''conversion'' \<and>
           isl (stof sim (subscribe_field payload ''conversion'')))) \<and>
   (ProcessReceivedData sim junk st ''AXIS'' payload = Inr st' \<longrightarrow>
      st' = st\<lparr>axisDataMap := axisDataMap st'\<rparr> \<and>
      map_of (axisDataMap st') = map_of (axisDataMap st) ++ map_of (rev (axis_updates sim payload)))"
proof -
  have "(\<exists>e. ProcessReceivedData sim junk st dataType payload = Inl e) \<longleftrightarrow>
      dataType = ''AXIS'' \<and> axis_rejected sim payload \<or>
      dataType = ''SUBSCRIBE'' \<and>
        (map_has (subscribe_fields payload) ''precision'' \<and>
           isl (stoi (subscribe_field payload ''precision'')) \<or>
         map_has (subscribe_fields payload) ''conversion'' \<and>
           isl (stof sim (subscribe_field payload ''conversion'')))"
  proof -
    consider (axis) "dataType = ''AXIS''" | (override) "dataType = ''OVERRIDE''"
      | (subscribe) "dataType = ''SUBSCRIBE''"
      | (unknown) "dataType \<noteq> ''AXIS''" "dataType \<noteq> ''OVERRIDE''" "dataType \<noteq> ''SUBSCRIBE''"
      by blast
    then show ?thesis
    proof cases
      case axis
      then show ?thesis using axis_raises_iff [of sim junk st payload] by simp
    next
      case override
      then show ?thesis using OVERRIDE_returns [of sim junk st payload] by auto
    next
      case subscribe
      then show ?thesis using subscribe_raises_iff [of sim junk st payload] by simp
    next
      case unknown
      then show ?thesis by (simp add: ProcessReceivedData_def)
    qed
  qed
  then show ?thesis
    using axis_command_returns(1,3) [of sim junk st payload st'] by blast
qed

theorem decoding_raises_exactly_on_rejected_numbers_witness:
  "ProcessReceivedData demo_sim False (XPluginStart demo_sim) ''AXIS'' ''jx=0.5,foo,bar=2'' =
     Inr ((XPluginStart demo_sim)
            \<lparr>axisDataMap := [(''bar'', Finite 2), (''cy'', Finite 0), (''jx'', Finite (1 / 2)),
                             (''jy'', Finite 0), (''px'', Finite 0)]\<rparr>) \<and>
   axis_updates demo_sim ''jx=0.5,foo,bar=2'' = [(''jx'', Finite (1 / 2)), (''bar'', Finite 2)] \<and>
   \<not> axis_rejected demo_sim ''jx=0.5,foo,bar=2'' \<and>
   map_of [(''bar'', Finite 2), (''cy'', Finite 0), (''jx'', Finite (1 / 2)),
           (''jy'', Finite 0), (''px'', Finite 0)] =
     map_of (axisDataMap (XPluginStart demo_sim)) ++
     map_of (rev [(''jx'', Finite (1 / 2)), (''bar'', Finite 2)])"
proof -
  let ?st' = "(XPluginStart demo_sim)
            \<lparr>axisDataMap := [(''bar'', Finite 2), (''cy'', Finite 0), (''jx'', Finite (1 / 2)),
                             (''jy'', Finite 0), (''px'', Finite 0)]\<rparr>"
  have h: "ProcessReceivedData demo_sim False (XPluginStart demo_sim) ''AXIS'' ''jx=0.5,foo,bar=2'' =
     Inr ?st'"
    by code_simp
  have u: "axis_updates demo_sim ''jx=0.5,foo,bar=2'' = [(''jx'', Finite (1 / 2)), (''bar'', Finite 2)]"
    by code_simp
  note inst = decoding_raises_exactly_on_rejected_numbers
      [of demo_sim False "XPluginStart demo_sim" "''AXIS''" "''jx=0.5,foo,bar=2''" ?st']
  from inst h have r: "\<not> axis_rejected demo_sim ''jx=0.5,foo,bar=2''"
    by auto
  from inst h u have m: "map_of [(''bar'', Finite 2), (''cy'', Finite 0), (''jx'', Finite (1 / 2)),
           (''jy'', Finite 0), (''px'', Finite 0)] =
     map_of (axisDataMap (XPluginStart demo_sim)) ++
     map_of (rev [(''jx'', Finite (1 / 2)), (''bar'', Finite 2)])"
    by simp
  show ?thesis
    using h u r m by blast
qed

subsection \<open>Missing fields of a subscription\<close>

text \<open>
  C5, as first stated: a \<^verbatim>\<open>SUBSCRIBE\<close> command without \<^verbatim>\<open>dataref\<close>, \<^verbatim>\<open>type\<close> or \<^verbatim>\<open>tag\<close>
  is a no-op. The fields are read with \<^verbatim>\<open>parameters[...]\<close> and not checked, so a missing
  one is the empty string. Here \<^verbatim>\<open>type\<close> is missing and the subscription is added, with
  an empty type.
\<close>

theorem subscribe_without_type_registers:
  "ProcessReceivedData demo_sim False (XPluginStart demo_sim) ''SUBSCRIBE'' ''dataref=sim/x,tag=Foo'' =
     Inr ((XPluginStart demo_sim)\<lparr>subscribedDataRefs :=
       [\<lparr>dataRef = ''sim/x'', key = ''Foo'', type = '''', precision = 3, conversionFactor = Finite 1\<rparr>]\<rparr>)"
  by code_simp

text \<open>
  C5, amended. A \<^verbatim>\<open>SUBSCRIBE\<close> command without a \<^verbatim>\<open>dataref\<close> field, on a simulator
  that does not resolve the empty path, changes nothing whenever it returns, and it does
  return with the state unchanged when it has no precision and no conversion field either.
  A command whose \<^verbatim>\<open>dataref\<close> resolves adds one subscription when it returns, also if
  \<^verbatim>\<open>type\<close> or \<^verbatim>\<open>tag\<close> is missing: the missing field is then the empty string.
\<close>

theorem subscribe_missing_fields:
  "(map_of (subscribe_fields payload) ''dataref'' = None \<and> \<not> resolves sim '''' \<and>
    ProcessReceivedData sim junk st ''SUBSCRIBE'' payload = Inr st' \<longrightarrow> st' = st) \<and>
   (map_of (subscribe_fields payload) ''dataref'' = None \<and> \<not> resolves sim '''' \<and>
    map_of (subscribe_fields payload) ''precision'' = None \<and>
    map_of (subscribe_fields payload) ''conversion'' = None \<longrightarrow>
    ProcessReceivedData sim junk st ''SUBSCRIBE'' payload = Inr st) \<and>
   (resolves sim (subscribe_field payload ''dataref'') \<and>
    ProcessReceivedData sim junk st ''SUBSCRIBE'' payload = Inr st' \<longrightarrow>
    (\<exists>p c. st' = st\<lparr>subscribedDataRefs := subscribedDataRefs st @
       [\<lparr>dataRef = subscribe_field payload ''dataref'', key = subscribe_field payload ''tag'',
         type = subscribe_field payload ''type'', precision = p, conversionFactor = c\<rparr>]\<rparr>))"
  by (auto simp: ProcessReceivedData_SUBSCRIBE RegisterDataRef_def XPLMFindDataRef_def
        subscribe_field_def map_has_def split: sum.splits if_splits)

theorem subscribe_missing_fields_witness:
  "map_of (subscribe_fields ''type=float,tag=Foo'') ''dataref'' = None \<and> \<not> resolves demo_sim '''' \<and>
   map_of (subscribe_fields ''type=float,tag=Foo'') ''precision'' = None \<and>
   map_of (subscribe_fields ''type=float,tag=Foo'') ''conversion'' = None \<and>
   ProcessReceivedData demo_sim False (XPluginStart demo_sim) ''SUBSCRIBE'' ''type=float,tag=Foo'' =
     Inr (XPluginStart demo_sim)"
proof -
  have h: "map_of (subscribe_fields ''type=float,tag=Foo'') ''dataref'' = None"
    "\<not> resolves demo_sim ''''"
    "map_of (subscribe_fields ''type=float,tag=Foo'') ''precision'' = None"
    "map_of (subscribe_fields ''type=float,tag=Foo'') ''conversion'' = None"
    by code_simp+
  show ?thesis
    using h subscribe_missing_fields
      [of "''type=float,tag=Foo''" demo_sim False "XPluginStart demo_sim" "XPluginStart demo_sim"]
    by simp
qed

end
